theory Spec2Isabelle
  imports Main "HOL-Library.Word"
begin

unbundle bit_operations_syntax

section \<open>The X11 presentation engine of the Vulkan WSI layer (wsi_common_x11.c)\<close>

text \<open>
  A shallow embedding of the swapchain state machine of \<^verbatim>\<open>src/vulkan/wsi/wsi_common_x11.c\<close>.
  C structs are records, the X server is an explicit record of scripted replies and a
  trace of the requests sent to it, and every function takes the state and returns the
  new one. Unsigned C integers are words; \<^verbatim>\<open>VkResult\<close> is a signed enum and is kept as
  an integer, since the code only compares it with zero and with named constants.
\<close>

subsection \<open>Vulkan and XCB constants\<close>

type_synonym VkResult = int

definition VK_SUCCESS :: VkResult where "VK_SUCCESS = 0"
definition VK_NOT_READY :: VkResult where "VK_NOT_READY = 1"
definition VK_TIMEOUT :: VkResult where "VK_TIMEOUT = 2"
definition VK_SUBOPTIMAL_KHR :: VkResult where "VK_SUBOPTIMAL_KHR = 1000001003"
definition VK_ERROR_OUT_OF_HOST_MEMORY :: VkResult where "VK_ERROR_OUT_OF_HOST_MEMORY = - 1"
definition VK_ERROR_SURFACE_LOST_KHR :: VkResult where "VK_ERROR_SURFACE_LOST_KHR = - 1000000000"
definition VK_ERROR_OUT_OF_DATE_KHR :: VkResult where "VK_ERROR_OUT_OF_DATE_KHR = - 1000001004"

text \<open>The present modes of \<^verbatim>\<open>VkPresentModeKHR\<close>; the last two are the shared modes of
  the enum, which the engine never lists but whose values the type admits.\<close>

datatype VkPresentModeKHR =
    VK_PRESENT_MODE_IMMEDIATE_KHR
  | VK_PRESENT_MODE_MAILBOX_KHR
  | VK_PRESENT_MODE_FIFO_KHR
  | VK_PRESENT_MODE_FIFO_RELAXED_KHR
  | VK_PRESENT_MODE_SHARED_DEMAND_REFRESH_KHR
  | VK_PRESENT_MODE_SHARED_CONTINUOUS_REFRESH_KHR

datatype VkFormat =
    VK_FORMAT_B8G8R8A8_UNORM
  | VK_FORMAT_B8G8R8A8_SRGB
  | VK_FORMAT_A2R10G10B10_UNORM_PACK32

subsection \<open>Device options and the connection entry\<close>

text \<open>The fields of \<^verbatim>\<open>struct wsi_device\<close> that this file reads.\<close>

record wsi_device =
  sw :: bool
  has_import_memory_host :: bool
  force_bgra8_unorm_first :: bool
  override_minImageCount :: "32 word"
  strict_imageCount :: bool
  ensure_minImageCount :: bool
  xwaylandWaitReady :: bool

record wsi_x11_connection =
  has_dri3 :: bool
  has_dri3_modifiers :: bool
  has_present :: bool
  is_proprietary_x11 :: bool
  is_xwayland :: bool
  has_mit_shm :: bool
  has_xfixes :: bool

subsection \<open>Fence-wait policy and image count\<close>

definition x11_needs_wait_for_fences ::
  "wsi_device \<Rightarrow> wsi_x11_connection \<Rightarrow> VkPresentModeKHR \<Rightarrow> bool" where
  "x11_needs_wait_for_fences wsi_dev wsi_conn present_mode =
     (if is_xwayland wsi_conn \<and> \<not> xwaylandWaitReady wsi_dev then False
      else case present_mode of
          VK_PRESENT_MODE_MAILBOX_KHR \<Rightarrow> True
        | VK_PRESENT_MODE_IMMEDIATE_KHR \<Rightarrow> is_xwayland wsi_conn
        | _ \<Rightarrow> False)"

definition x11_get_min_image_count :: "wsi_device \<Rightarrow> 32 word" where
  "x11_get_min_image_count wsi_dev =
     (if override_minImageCount wsi_dev \<noteq> 0 then override_minImageCount wsi_dev else 3)"

text \<open>\<^verbatim>\<open>MAX2\<close> of util/macros.h on unsigned operands.\<close>

definition MAX2 :: "32 word \<Rightarrow> 32 word \<Rightarrow> 32 word" where
  "MAX2 a b = (if a > b then a else b)"

text \<open>The image-count resolution at the head of \<^verbatim>\<open>x11_surface_create_swapchain\<close>:
  \<^verbatim>\<open>num_images\<close> starts as the requested \<^verbatim>\<open>minImageCount\<close> and is raised by the first
  branch of the if-chain that applies.\<close>

definition x11_surface_create_swapchain_num_images ::
  "wsi_device \<Rightarrow> wsi_x11_connection \<Rightarrow> VkPresentModeKHR \<Rightarrow> 32 word \<Rightarrow> 32 word" where
  "x11_surface_create_swapchain_num_images wsi_dev wsi_conn present_mode minImageCount =
     (let num_images = minImageCount in
      if strict_imageCount wsi_dev then minImageCount
      else if x11_needs_wait_for_fences wsi_dev wsi_conn present_mode then MAX2 num_images 5
      else if ensure_minImageCount wsi_dev then MAX2 num_images (x11_get_min_image_count wsi_dev)
      else num_images)"

subsection \<open>Swapchain state\<close>

text \<open>What can go wrong below the level of a \<^verbatim>\<open>VkResult\<close>: the C code dereferences a
  null reply, indexes past an array, divides by zero, or blocks on a channel on which
  nothing will ever arrive.\<close>

datatype fault = NullDereference | IndexOutOfRange | DivisionByZero | NeverReturns

record VkExtent2D =
  width :: "32 word"
  height :: "32 word"

text \<open>\<^verbatim>\<open>struct x11_image\<close>. \<open>row_pitch\<close> is \<^verbatim>\<open>base.row_pitches[0]\<close>. The shared-memory fence
  and the SHM segment live in memory shared with the server and are not part of the
  state: waiting on the fence changes no field of the chain.\<close>

record x11_image =
  pixmap :: "32 word"
  update_region :: "32 word"
  update_area :: "32 word"
  busy :: bool
  present_queued :: bool
  sync_fence :: "32 word"
  serial :: "32 word"
  row_pitch :: "32 word"

text \<open>\<^verbatim>\<open>struct x11_swapchain\<close>. \<open>wsi\<close> and \<open>present_mode\<close> are the fields of the embedded
  \<^verbatim>\<open>base\<close>; \<^verbatim>\<open>base.image_count\<close> is the length of the flexible array \<open>images\<close>. The two
  queues hold image indices, oldest first.\<close>

record x11_swapchain =
  wsi :: wsi_device
  present_mode :: VkPresentModeKHR
  chain_has_dri3_modifiers :: bool
  chain_has_mit_shm :: bool
  window :: "32 word"
  gc :: "32 word"
  extent :: VkExtent2D
  send_sbc :: "64 word"
  last_present_msc :: "64 word"
  sent_image_count :: int
  has_present_queue :: bool
  has_acquire_queue :: bool
  status :: VkResult
  copy_is_suboptimal :: bool
  present_queue :: "32 word list"
  acquire_queue :: "32 word list"
  images :: "x11_image list"

subsection \<open>The status latch\<close>

definition x11_swapchain_result :: "x11_swapchain \<Rightarrow> VkResult \<Rightarrow> VkResult \<times> x11_swapchain" where
  "x11_swapchain_result chain result =
     (if status chain < 0 then (status chain, chain)
      else if result < 0 then (result, chain\<lparr>status := result\<rparr>)
      else if result = VK_TIMEOUT \<or> result = VK_NOT_READY then (result, chain)
      else if result = VK_SUBOPTIMAL_KHR then (result, chain\<lparr>status := result\<rparr>)
      else (status chain, chain))"

text \<open>Merging a whole sequence of results, in order: the values reported and the final
  chain.\<close>

fun x11_swapchain_results :: "x11_swapchain \<Rightarrow> VkResult list \<Rightarrow> VkResult list \<times> x11_swapchain" where
  "x11_swapchain_results chain [] = ([], chain)"
| "x11_swapchain_results chain (r # rs) =
     (let (v, chain1) = x11_swapchain_result chain r;
          (vs, chain2) = x11_swapchain_results chain1 rs
      in (v # vs, chain2))"

subsection \<open>Present events\<close>

text \<open>The events of the Present extension, read through the casts of the handler:
  CONFIGURE_NOTIFY carries width and height, IDLE_NOTIFY a pixmap, COMPLETE_NOTIFY
  kind, mode, serial and msc. Any other \<^verbatim>\<open>evtype\<close> is \<open>XCB_PRESENT_OTHER\<close>.\<close>

datatype xcb_present_generic_event =
    XCB_PRESENT_CONFIGURE_NOTIFY "16 word" "16 word"
  | XCB_PRESENT_EVENT_IDLE_NOTIFY "32 word"
  | XCB_PRESENT_EVENT_COMPLETE_NOTIFY "8 word" "8 word" "32 word" "64 word"
  | XCB_PRESENT_OTHER

definition XCB_PRESENT_COMPLETE_KIND_PIXMAP :: "8 word" where
  "XCB_PRESENT_COMPLETE_KIND_PIXMAP = 0"
definition XCB_PRESENT_COMPLETE_MODE_COPY :: "8 word" where
  "XCB_PRESENT_COMPLETE_MODE_COPY = 0"
definition XCB_PRESENT_COMPLETE_MODE_FLIP :: "8 word" where
  "XCB_PRESENT_COMPLETE_MODE_FLIP = 1"
definition XCB_PRESENT_COMPLETE_MODE_SUBOPTIMAL_COPY :: "8 word" where
  "XCB_PRESENT_COMPLETE_MODE_SUBOPTIMAL_COPY = 3"

definition wsi_queue_push :: "32 word list \<Rightarrow> 32 word \<Rightarrow> 32 word list" where
  "wsi_queue_push queue index = queue @ [index]"

text \<open>The IDLE_NOTIFY loop: the first slot whose pixmap matches is released, and the
  loop breaks.\<close>

function idle_notify_loop :: "x11_swapchain \<Rightarrow> 32 word \<Rightarrow> nat \<Rightarrow> x11_swapchain" where
  "idle_notify_loop chain idle_pixmap i =
     (if i < length (images chain) then
        (if pixmap (images chain ! i) = idle_pixmap then
           chain\<lparr>images := (images chain)[i := (images chain ! i)\<lparr>busy := False\<rparr>],
                 sent_image_count := sent_image_count chain - 1,
                 acquire_queue := (if has_acquire_queue chain
                                   then wsi_queue_push (acquire_queue chain) (of_nat i)
                                   else acquire_queue chain)\<rparr>
         else idle_notify_loop chain idle_pixmap (i + 1))
      else chain)"
  by pat_completeness auto
termination
  by (relation "measure (\<lambda>(chain, p, i). length (images chain) - i)") auto

text \<open>The COMPLETE_NOTIFY loop visits every slot and clears \<open>present_queued\<close> where
  the serial matches.\<close>

definition complete_notify_image :: "32 word \<Rightarrow> x11_image \<Rightarrow> x11_image" where
  "complete_notify_image complete_serial img =
     (if present_queued img \<and> serial img = complete_serial
      then img\<lparr>present_queued := False\<rparr> else img)"

text \<open>\<open>HAVE_DRI3_MODIFIERS\<close> is the build option of the same name.\<close>

definition x11_handle_dri3_present_event ::
  "bool \<Rightarrow> x11_swapchain \<Rightarrow> xcb_present_generic_event \<Rightarrow> VkResult \<times> x11_swapchain" where
  "x11_handle_dri3_present_event HAVE_DRI3_MODIFIERS chain event =
     (case event of
        XCB_PRESENT_CONFIGURE_NOTIFY w h \<Rightarrow>
          (if ucast w \<noteq> width (extent chain) \<or> ucast h \<noteq> height (extent chain)
           then (VK_SUBOPTIMAL_KHR, chain)
           else (VK_SUCCESS, chain))
      | XCB_PRESENT_EVENT_IDLE_NOTIFY idle_pixmap \<Rightarrow>
          (VK_SUCCESS, idle_notify_loop chain idle_pixmap 0)
      | XCB_PRESENT_EVENT_COMPLETE_NOTIFY kind mode complete_serial msc \<Rightarrow>
          (let chain1 =
                 (if kind = XCB_PRESENT_COMPLETE_KIND_PIXMAP
                  then chain\<lparr>images := map (complete_notify_image complete_serial) (images chain),
                             last_present_msc := msc\<rparr>
                  else chain)
           in if mode = XCB_PRESENT_COMPLETE_MODE_COPY then
                (if copy_is_suboptimal chain1 then VK_SUBOPTIMAL_KHR else VK_SUCCESS, chain1)
              else if mode = XCB_PRESENT_COMPLETE_MODE_FLIP then
                (VK_SUCCESS, chain1\<lparr>copy_is_suboptimal := True\<rparr>)
              else if HAVE_DRI3_MODIFIERS \<and> mode = XCB_PRESENT_COMPLETE_MODE_SUBOPTIMAL_COPY then
                (VK_SUBOPTIMAL_KHR, chain1)
              else (VK_SUCCESS, chain1))
      | XCB_PRESENT_OTHER \<Rightarrow> (VK_SUCCESS, chain))"

subsection \<open>The X server as the swapchain sees it\<close>

text \<open>The requests that change server state, with the arguments the code computes:
  \<open>XCB_XFIXES_SET_REGION region rectangles\<close>,
  \<open>XCB_PRESENT_PIXMAP window pixmap serial update idle_fence options target_msc\<close> and
  \<open>XCB_PUT_IMAGE window gc width height dst_y data_len data_offset\<close>.
  A rectangle is \<open>(x, y, width, height)\<close>.\<close>

datatype xcb_request =
    XCB_XFIXES_SET_REGION "32 word" "(16 word \<times> 16 word \<times> 16 word \<times> 16 word) list"
  | XCB_PRESENT_PIXMAP "32 word" "32 word" "32 word" "32 word" "32 word" "32 word" "64 word"
  | XCB_PUT_IMAGE "32 word" "32 word" "16 word" "16 word" "16 word" "32 word" "32 word"

text \<open>The server side of a connection. \<open>wsi_conn\<close> is what \<^verbatim>\<open>wsi_x11_get_connection\<close>
  returns for it. \<open>special_events\<close> scripts the successive replies of
  \<^verbatim>\<open>xcb_poll_for_special_event\<close> and \<^verbatim>\<open>xcb_wait_for_special_event\<close> (\<open>None\<close> is a null
  reply; when the script is over a poll finds nothing and a wait blocks for good).
  \<open>request_checks\<close> scripts \<^verbatim>\<open>xcb_request_check\<close> (\<open>True\<close> is an error; no error once the
  script is over), \<open>fd_polls\<close> the return values of \<^verbatim>\<open>poll(2)\<close> with the clock reading
  after each (once the script is over the descriptor stays silent and \<^verbatim>\<open>poll\<close> times
  out), \<open>clock\<close> is
  \<^verbatim>\<open>os_time_get_nano\<close>, \<open>geometry\<close> the reply to \<^verbatim>\<open>xcb_get_geometry\<close> (width and height),
  and \<open>requests\<close> records what was sent, oldest first.\<close>

record xserver =
  wsi_conn :: "wsi_x11_connection option"
  special_events :: "xcb_present_generic_event option list"
  request_checks :: "bool list"
  fd_polls :: "(int \<times> 64 word) list"
  clock :: "64 word"
  geometry :: "(16 word \<times> 16 word) option"
  maximum_request_length :: "32 word"
  requests :: "xcb_request list"

definition xcb_send :: "xserver \<Rightarrow> xcb_request \<Rightarrow> xserver" where
  "xcb_send srv req = srv\<lparr>requests := requests srv @ [req]\<rparr>"

definition xcb_request_check :: "xserver \<Rightarrow> bool \<times> xserver" where
  "xcb_request_check srv =
     (case request_checks srv of
        [] \<Rightarrow> (False, srv)
      | e # es \<Rightarrow> (e, srv\<lparr>request_checks := es\<rparr>))"

definition XCB_PRESENT_OPTION_NONE :: "32 word" where "XCB_PRESENT_OPTION_NONE = 0"
definition XCB_PRESENT_OPTION_ASYNC :: "32 word" where "XCB_PRESENT_OPTION_ASYNC = 1"
definition XCB_PRESENT_OPTION_SUBOPTIMAL :: "32 word" where "XCB_PRESENT_OPTION_SUBOPTIMAL = 8"
definition UINT64_MAX :: "64 word" where "UINT64_MAX = - 1"
definition MAX_DAMAGE_RECTS :: "32 word" where "MAX_DAMAGE_RECTS = 64"

subsection \<open>Presenting\<close>

text \<open>The event-draining loop of \<^verbatim>\<open>x11_present_to_x11_dri3\<close>, run on the script of the
  special-event channel: it stops at the first null reply, or returns early with the
  first negative merged result.\<close>

fun present_poll_events ::
  "bool \<Rightarrow> x11_swapchain \<Rightarrow> xcb_present_generic_event option list
     \<Rightarrow> VkResult option \<times> x11_swapchain \<times> xcb_present_generic_event option list" where
  "present_poll_events HAVE_DRI3_MODIFIERS chain [] = (None, chain, [])"
| "present_poll_events HAVE_DRI3_MODIFIERS chain (None # es) = (None, chain, es)"
| "present_poll_events HAVE_DRI3_MODIFIERS chain (Some event # es) =
     (let (result, chain1) = x11_handle_dri3_present_event HAVE_DRI3_MODIFIERS chain event;
          (result, chain2) = x11_swapchain_result chain1 result
      in if result < 0 then (Some result, chain2, es)
         else present_poll_events HAVE_DRI3_MODIFIERS chain2 es)"

definition x11_present_to_x11_dri3 ::
  "bool \<Rightarrow> x11_swapchain \<Rightarrow> 32 word \<Rightarrow> 64 word \<Rightarrow> xserver
     \<Rightarrow> fault + (VkResult \<times> x11_swapchain \<times> xserver)" where
  "x11_present_to_x11_dri3 HAVE_DRI3_MODIFIERS chain image_index target_msc srv =
     (if \<not> unat image_index < length (images chain) then Inl IndexOutOfRange
      else case wsi_conn srv of
        None \<Rightarrow> Inr (VK_ERROR_OUT_OF_HOST_MEMORY, chain, srv)
      | Some conn \<Rightarrow>
         (let options =
                (if present_mode chain = VK_PRESENT_MODE_IMMEDIATE_KHR \<or>
                    (present_mode chain = VK_PRESENT_MODE_MAILBOX_KHR \<and> is_xwayland conn) \<or>
                    present_mode chain = VK_PRESENT_MODE_FIFO_RELAXED_KHR
                 then XCB_PRESENT_OPTION_NONE OR XCB_PRESENT_OPTION_ASYNC
                 else XCB_PRESENT_OPTION_NONE);
              options =
                (if HAVE_DRI3_MODIFIERS \<and> chain_has_dri3_modifiers chain
                 then options OR XCB_PRESENT_OPTION_SUBOPTIMAL else options);
              (early, chain1, events) =
                present_poll_events HAVE_DRI3_MODIFIERS chain (special_events srv);
              srv1 = srv\<lparr>special_events := events\<rparr>
          in case early of
               Some result \<Rightarrow> Inr (result, chain1, srv1)
             | None \<Rightarrow>
                (let chain2 = chain1\<lparr>sent_image_count := sent_image_count chain1 + 1,
                                     send_sbc := send_sbc chain1 + 1\<rparr>;
                     img = (images chain2 ! unat image_index)
                             \<lparr>present_queued := True, serial := ucast (send_sbc chain2)\<rparr>;
                     chain3 = chain2\<lparr>images := (images chain2)[unat image_index := img]\<rparr>;
                     srv2 = xcb_send srv1
                              (XCB_PRESENT_PIXMAP (window chain3) (pixmap img) (serial img)
                                 (update_area img) (sync_fence img) options target_msc);
                     (error, srv3) = xcb_request_check srv2;
                     (result, chain4) =
                       x11_swapchain_result chain3
                         (if error then VK_ERROR_SURFACE_LOST_KHR else VK_SUCCESS)
                 in Inr (result, chain4, srv3))))"

text \<open>The banding loop of \<^verbatim>\<open>x11_present_to_x11_sw\<close> on C \<^verbatim>\<open>int\<close>s (two's complement,
  \<^verbatim>\<open>MIN2\<close> compares signed). It yields the \<open>(y_start, this_lines)\<close> of each band. With
  \<open>num_lines\<close> zero the C loop never ends, and neither does this one.\<close>

partial_function (option) put_image_bands ::
  "32 word \<Rightarrow> 32 word \<Rightarrow> 32 word \<Rightarrow> (32 word \<times> 32 word) list
     \<Rightarrow> (32 word \<times> 32 word) list option" where
  "put_image_bands num_lines y_start y_todo bands =
     (if y_todo = 0 then Some bands
      else let this_lines = (if sint num_lines < sint y_todo then num_lines else y_todo)
           in put_image_bands num_lines (y_start + this_lines) (y_todo - this_lines)
                (bands @ [(y_start, this_lines)]))"

definition x11_present_to_x11_sw ::
  "x11_swapchain \<Rightarrow> 32 word \<Rightarrow> 64 word \<Rightarrow> xserver
     \<Rightarrow> fault + (VkResult \<times> x11_swapchain \<times> xserver)" where
  "x11_present_to_x11_sw chain image_index target_msc srv =
     (if \<not> unat image_index < length (images chain) then Inl IndexOutOfRange
      else
        let img = images chain ! unat image_index;
            hdr_len = (24 :: 64 word);
            stride_b = row_pitch img;
            size = drop_bit 2 (hdr_len + ucast (stride_b * height (extent chain)));
            max_req_len = (ucast (maximum_request_length srv) :: 64 word);
            put = (\<lambda>(y_start, this_lines) s.
                     xcb_send s (XCB_PUT_IMAGE (window chain) (gc chain)
                       (ucast (row_pitch img div 4)) (ucast this_lines) (ucast y_start)
                       (this_lines * stride_b) (y_start * stride_b)));
            sent =
              (if size < max_req_len then Inr (put (0, height (extent chain)) srv)
               else if stride_b = 0 then Inl DivisionByZero
               else
                 let num_lines =
                       (ucast ((push_bit 2 max_req_len - hdr_len) div scast stride_b) :: 32 word)
                 in case put_image_bands num_lines 0 (height (extent chain)) [] of
                      None \<Rightarrow> Inl NeverReturns
                    | Some bands \<Rightarrow> Inr (fold put bands srv))
        in case sent of
             Inl f \<Rightarrow> Inl f
           | Inr srv1 \<Rightarrow>
              (let chain1 = chain\<lparr>images := (images chain)[unat image_index :=
                                     (images chain ! unat image_index)\<lparr>busy := False\<rparr>]\<rparr>;
                   (result, chain2) = x11_swapchain_result chain1 VK_SUCCESS
               in Inr (result, chain2, srv1)))"

definition x11_present_to_x11 ::
  "bool \<Rightarrow> x11_swapchain \<Rightarrow> 32 word \<Rightarrow> 64 word \<Rightarrow> xserver
     \<Rightarrow> fault + (VkResult \<times> x11_swapchain \<times> xserver)" where
  "x11_present_to_x11 HAVE_DRI3_MODIFIERS chain image_index target_msc srv =
     (if sw (wsi chain) \<and> \<not> chain_has_mit_shm chain
      then x11_present_to_x11_sw chain image_index target_msc srv
      else x11_present_to_x11_dri3 HAVE_DRI3_MODIFIERS chain image_index target_msc srv)"

text \<open>\<^verbatim>\<open>VkRectLayerKHR\<close> (offset, extent, layer) and \<^verbatim>\<open>VkPresentRegionKHR\<close>; a null
  \<^verbatim>\<open>pRectangles\<close> is \<open>None\<close>, and a null \<^verbatim>\<open>damage\<close> argument is \<open>None\<close> too.\<close>

record VkRectLayerKHR =
  rect_offset :: "32 word \<times> 32 word"
  rect_extent :: VkExtent2D
  rect_layer :: "32 word"

record VkPresentRegionKHR =
  rectangleCount :: "32 word"
  pRectangles :: "VkRectLayerKHR list option"

definition xcb_rectangle_of :: "VkRectLayerKHR \<Rightarrow> 16 word \<times> 16 word \<times> 16 word \<times> 16 word" where
  "xcb_rectangle_of rect =
     (ucast (fst (rect_offset rect)), ucast (snd (rect_offset rect)),
      ucast (width (rect_extent rect)), ucast (height (rect_extent rect)))"

text \<open>The damage block of \<^verbatim>\<open>x11_queue_present\<close>: the update area chosen and the server
  after the region request, if one is sent. Reading more rectangles than the array holds
  is a fault.\<close>

definition x11_queue_present_damage ::
  "x11_swapchain \<Rightarrow> 32 word \<Rightarrow> VkPresentRegionKHR option \<Rightarrow> xserver
     \<Rightarrow> fault + (32 word \<times> xserver)" where
  "x11_queue_present_damage chain image_index damage srv =
     (case damage of
        None \<Rightarrow> Inr (0, srv)
      | Some d \<Rightarrow>
         (case pRectangles d of
            None \<Rightarrow> Inr (0, srv)
          | Some rects \<Rightarrow>
             if rectangleCount d > 0 \<and> rectangleCount d \<le> MAX_DAMAGE_RECTS then
               (if length rects < unat (rectangleCount d) then Inl IndexOutOfRange
                else
                  let area = update_region (images chain ! unat image_index)
                  in Inr (area,
                          xcb_send srv (XCB_XFIXES_SET_REGION area
                            (map xcb_rectangle_of (take (unat (rectangleCount d)) rects)))))
             else Inr (0, srv)))"

definition x11_queue_present ::
  "bool \<Rightarrow> x11_swapchain \<Rightarrow> 32 word \<Rightarrow> VkPresentRegionKHR option \<Rightarrow> xserver
     \<Rightarrow> fault + (VkResult \<times> x11_swapchain \<times> xserver)" where
  "x11_queue_present HAVE_DRI3_MODIFIERS chain image_index damage srv =
     (if status chain < 0 then Inr (status chain, chain, srv)
      else if \<not> unat image_index < length (images chain) then Inl IndexOutOfRange
      else case x11_queue_present_damage chain image_index damage srv of
        Inl f \<Rightarrow> Inl f
      | Inr (area, srv1) \<Rightarrow>
         (let img = (images chain ! unat image_index)\<lparr>update_area := area, busy := True\<rparr>;
              chain1 = chain\<lparr>images := (images chain)[unat image_index := img]\<rparr>
          in if has_present_queue chain1 then
               Inr (status chain1,
                    chain1\<lparr>present_queue := wsi_queue_push (present_queue chain1) image_index\<rparr>,
                    srv1)
             else x11_present_to_x11 HAVE_DRI3_MODIFIERS chain1 image_index 0 srv1))"

subsection \<open>Acquiring\<close>

text \<open>The scan for a slot that is not busy, returning its index.\<close>

fun first_not_busy :: "x11_image list \<Rightarrow> nat \<Rightarrow> nat option" where
  "first_not_busy [] i = None"
| "first_not_busy (img # imgs) i = (if \<not> busy img then Some i else first_not_busy imgs (Suc i))"

definition MIN2 :: "64 word \<Rightarrow> 64 word \<Rightarrow> 64 word" where
  "MIN2 a b = (if a < b then a else b)"

definition wsi_get_absolute_timeout :: "64 word \<Rightarrow> 64 word \<Rightarrow> 64 word" where
  "wsi_get_absolute_timeout current_time timeout =
     current_time + MIN2 (UINT64_MAX - current_time) timeout"

text \<open>Merging a result when no image is handed out.\<close>

definition acquire_fail ::
  "x11_swapchain \<Rightarrow> VkResult \<Rightarrow> xserver
     \<Rightarrow> fault + (VkResult \<times> 32 word option \<times> x11_swapchain \<times> xserver)" where
  "acquire_fail chain result srv =
     (let (result, chain1) = x11_swapchain_result chain result
      in Inr (result, None, chain1, srv))"

function x11_acquire_next_image_poll_x11 ::
  "bool \<Rightarrow> x11_swapchain \<Rightarrow> 64 word \<Rightarrow> xserver
     \<Rightarrow> fault + (VkResult \<times> 32 word option \<times> x11_swapchain \<times> xserver)" where
  "x11_acquire_next_image_poll_x11 HAVE_DRI3_MODIFIERS chain timeout srv =
     (case first_not_busy (images chain) 0 of
        Some i \<Rightarrow>
         (let chain1 = chain\<lparr>images := (images chain)[i := (images chain ! i)\<lparr>busy := True\<rparr>]\<rparr>;
              (result, chain2) = x11_swapchain_result chain1 VK_SUCCESS
          in Inr (result, Some (of_nat i), chain2, srv))
      | None \<Rightarrow>
         (case special_events srv of
            Some event # es \<Rightarrow>
             (let (result, chain1) = x11_handle_dri3_present_event HAVE_DRI3_MODIFIERS chain event;
                  (result, chain2) = x11_swapchain_result chain1 result;
                  srv1 = srv\<lparr>special_events := es\<rparr>
              in if result < 0 then Inr (result, None, chain2, srv1)
                 else x11_acquire_next_image_poll_x11 HAVE_DRI3_MODIFIERS chain2 timeout srv1)
          | None # es \<Rightarrow>
             (let srv1 = srv\<lparr>special_events := es\<rparr>
              in if timeout = UINT64_MAX then acquire_fail chain VK_ERROR_SURFACE_LOST_KHR srv1
                 else if timeout = 0 then acquire_fail chain VK_NOT_READY srv1
                 else
                   (case fd_polls srv1 of
                      [] \<Rightarrow> acquire_fail chain VK_TIMEOUT srv1
                    | (ret, current_time) # polls \<Rightarrow>
                       (let atimeout = wsi_get_absolute_timeout (clock srv1) timeout;
                            srv2 = srv1\<lparr>fd_polls := polls, clock := current_time\<rparr>
                        in if ret = 0 then acquire_fail chain VK_TIMEOUT srv2
                           else if ret = - 1 then acquire_fail chain VK_ERROR_OUT_OF_DATE_KHR srv2
                           else x11_acquire_next_image_poll_x11 HAVE_DRI3_MODIFIERS chain
                                  (if atimeout > current_time then atimeout - current_time else 0)
                                  srv2)))
          | [] \<Rightarrow>
             (if timeout = UINT64_MAX then Inl NeverReturns
              else if timeout = 0 then acquire_fail chain VK_NOT_READY srv
              else
                (case fd_polls srv of
                   [] \<Rightarrow> acquire_fail chain VK_TIMEOUT srv
                 | (ret, current_time) # polls \<Rightarrow>
                    (let atimeout = wsi_get_absolute_timeout (clock srv) timeout;
                         srv2 = srv\<lparr>fd_polls := polls, clock := current_time\<rparr>
                     in if ret = 0 then acquire_fail chain VK_TIMEOUT srv2
                        else if ret = - 1 then acquire_fail chain VK_ERROR_OUT_OF_DATE_KHR srv2
                        else x11_acquire_next_image_poll_x11 HAVE_DRI3_MODIFIERS chain
                               (if atimeout > current_time then atimeout - current_time else 0)
                               srv2)))))"
  by pat_completeness auto
termination
  by (relation "measure (\<lambda>(hm, chain, timeout, srv).
                  length (special_events srv) + length (fd_polls srv))") auto

text \<open>Modelled from the spec: \<^verbatim>\<open>wsi_queue_pull\<close> of wsi_common_queue.h, which is not
  among the sources. The spec describes the queues as bounded blocking queues of image
  indices from which acquire pulls the next index, blocking up to the timeout: a queue
  that holds an index yields the oldest one with success, an empty one times out, and
  with an infinite timeout the pull of an empty queue never returns. The index is
  \<open>None\<close> when the C function leaves \<^verbatim>\<open>*index\<close> unwritten.\<close>

definition wsi_queue_pull ::
  "32 word list \<Rightarrow> 64 word \<Rightarrow> fault + (VkResult \<times> 32 word option \<times> 32 word list)" where
  "wsi_queue_pull queue timeout =
     (case queue of
        index # rest \<Rightarrow> Inr (VK_SUCCESS, Some index, rest)
      | [] \<Rightarrow> if timeout = UINT64_MAX then Inl NeverReturns else Inr (VK_TIMEOUT, None, []))"

definition x11_acquire_next_image_from_queue ::
  "x11_swapchain \<Rightarrow> 64 word \<Rightarrow> xserver
     \<Rightarrow> fault + (VkResult \<times> 32 word option \<times> x11_swapchain \<times> xserver)" where
  "x11_acquire_next_image_from_queue chain timeout srv =
     (case wsi_queue_pull (acquire_queue chain) timeout of
        Inl f \<Rightarrow> Inl f
      | Inr (result, pulled, queue) \<Rightarrow>
         (let chain1 = chain\<lparr>acquire_queue := queue\<rparr>
          in if result < 0 \<or> result = VK_TIMEOUT then acquire_fail chain1 result srv
             else if status chain1 < 0 then Inr (status chain1, None, chain1, srv)
             else case pulled of
                    None \<Rightarrow> Inl NullDereference
                  | Some image_index \<Rightarrow>
                     if \<not> unat image_index < length (images chain1) then Inl IndexOutOfRange
                     else Inr (status chain1, Some image_index, chain1, srv)))"

text \<open>\<^verbatim>\<open>x11_acquire_next_image\<close>: the result, the image index written (if any), the chain
  and the server afterwards.\<close>

definition x11_acquire_next_image ::
  "bool \<Rightarrow> x11_swapchain \<Rightarrow> 64 word \<Rightarrow> xserver
     \<Rightarrow> fault + (VkResult \<times> 32 word option \<times> x11_swapchain \<times> xserver)" where
  "x11_acquire_next_image HAVE_DRI3_MODIFIERS chain timeout srv =
     (if status chain < 0 then Inr (status chain, None, chain, srv)
      else if sw (wsi chain) \<and> \<not> chain_has_mit_shm chain then
        (case first_not_busy (images chain) 0 of
           Some i \<Rightarrow>
            (let chain1 = chain\<lparr>images := (images chain)[i := (images chain ! i)\<lparr>busy := True\<rparr>]\<rparr>;
                 result =
                   (case geometry srv of
                      Some (geom_width, geom_height) \<Rightarrow>
                        if width (extent chain1) \<noteq> ucast geom_width \<or>
                           height (extent chain1) \<noteq> ucast geom_height
                        then VK_SUBOPTIMAL_KHR else VK_SUCCESS
                    | None \<Rightarrow> VK_ERROR_SURFACE_LOST_KHR)
             in Inr (result, Some (of_nat i), chain1, srv))
         | None \<Rightarrow> Inr (VK_NOT_READY, None, chain, srv))
      else if has_acquire_queue chain
        then x11_acquire_next_image_from_queue chain timeout srv
        else x11_acquire_next_image_poll_x11 HAVE_DRI3_MODIFIERS chain timeout srv)"

subsection \<open>Probing a connection\<close>

text \<open>What the server (and the allocator) answer while a connection is probed. A
  \<^verbatim>\<open>xcb_query_extension\<close> reply is \<open>None\<close> when the reply pointer is null and
  \<open>Some present\<close> otherwise; version replies are \<open>(major, minor)\<close>;
  \<open>shm_shared_pixmaps\<close> is the \<^verbatim>\<open>shared_pixmaps\<close> field of the MIT-SHM version reply;
  \<open>shm_detach_error\<close> is the error code of the checked \<^verbatim>\<open>detach(0)\<close>, if it fails;
  \<open>randr_num_outputs\<close> and \<open>randr_output_name\<close> are the screen-resources and
  output-info replies.\<close>

record x11_probe =
  alloc_ok :: bool
  dri3_reply :: "bool option"
  pres_reply :: "bool option"
  randr_reply :: "bool option"
  amd_reply :: "bool option"
  nv_reply :: "bool option"
  xfixes_reply :: "bool option"
  xwl_reply :: "bool option"
  shm_reply :: "bool option"
  dri3_version :: "(32 word \<times> 32 word) option"
  present_version :: "(32 word \<times> 32 word) option"
  xfixes_version :: "(32 word \<times> 32 word) option"
  randr_version :: "(32 word \<times> 32 word) option"
  shm_shared_pixmaps :: "bool option"
  shm_detach_error :: "8 word option"
  randr_num_outputs :: "16 word option"
  randr_output_name :: "string option"

definition BadRequest :: "8 word" where "BadRequest = 1"

definition wsi_x11_detect_xwayland :: "x11_probe \<Rightarrow> bool" where
  "wsi_x11_detect_xwayland probe =
     (if xwl_reply probe = Some True then True
      else if randr_reply probe \<noteq> Some True then False
      else if \<not> (case randr_version probe of
                   Some (major, minor) \<Rightarrow> major > 1 \<or> minor \<ge> 3
                 | None \<Rightarrow> False) then False
      else (case randr_num_outputs probe of
              None \<Rightarrow> False
            | Some num_outputs \<Rightarrow>
               (if num_outputs = 0 then False
                else (case randr_output_name probe of
                        None \<Rightarrow> False
                      | Some output_name \<Rightarrow> (take 8 output_name = ''XWAYLAND'')))))"

text \<open>\<^verbatim>\<open>wsi_x11_connection_create\<close>. \<open>Inr None\<close> is the null return, \<open>Inr (Some e)\<close> the
  entry, and \<open>Inl NullDereference\<close> the places where a version reply (or the MIT-SHM
  extension reply) is read without a null check. \<open>noshm\<close> is the debug flag
  \<^verbatim>\<open>WSI_DEBUG_NOSHM\<close>.\<close>

definition wsi_x11_connection_create ::
  "bool \<Rightarrow> bool \<Rightarrow> wsi_device \<Rightarrow> x11_probe \<Rightarrow> fault + wsi_x11_connection option" where
  "wsi_x11_connection_create HAVE_DRI3_MODIFIERS noshm wsi_dev probe =
     (let wants_shm = (sw wsi_dev \<and> \<not> noshm \<and> has_import_memory_host wsi_dev)
      in if \<not> alloc_ok probe then Inr None
         else case (dri3_reply probe, pres_reply probe, xfixes_reply probe) of
           (Some dri3_present, Some pres_present, Some xfixes_present) \<Rightarrow>
             (let has_dri3_v1_2 =
                    (HAVE_DRI3_MODIFIERS \<and> dri3_present \<and>
                     (case dri3_version probe of
                        Some (major, minor) \<Rightarrow> major > 1 \<or> minor \<ge> 2
                      | None \<Rightarrow> False));
                  has_present_v1_2 =
                    (HAVE_DRI3_MODIFIERS \<and> pres_present \<and>
                     (case present_version probe of
                        Some (major, minor) \<Rightarrow> major > 1 \<or> minor \<ge> 2
                      | None \<Rightarrow> False))
              in case (if xfixes_present
                       then (case xfixes_version probe of
                               None \<Rightarrow> Inl NullDereference
                             | Some (major, minor) \<Rightarrow> Inr (major \<ge> 2))
                       else Inr False) of
                   Inl f \<Rightarrow> Inl f
                 | Inr xfixes_ok \<Rightarrow>
                    (case (if dri3_present \<and> pres_present \<and> wants_shm
                           then (case shm_reply probe of
                                   None \<Rightarrow> Inl NullDereference
                                 | Some shm_present \<Rightarrow>
                                    (case shm_shared_pixmaps probe of
                                       None \<Rightarrow> Inl NullDereference
                                     | Some shared_pixmaps \<Rightarrow>
                                        Inr (shared_pixmaps \<and>
                                             (case shm_detach_error probe of
                                                Some error_code \<Rightarrow> error_code \<noteq> BadRequest
                                              | None \<Rightarrow> False))))
                           else Inr False) of
                       Inl f \<Rightarrow> Inl f
                     | Inr mit_shm \<Rightarrow>
                        Inr (Some \<lparr>has_dri3 = dri3_present,
                                   has_dri3_modifiers = (has_dri3_v1_2 \<and> has_present_v1_2),
                                   has_present = pres_present,
                                   is_proprietary_x11 =
                                     (amd_reply probe = Some True \<or> nv_reply probe = Some True),
                                   is_xwayland = wsi_x11_detect_xwayland probe,
                                   has_mit_shm = mit_shm,
                                   has_xfixes = xfixes_ok\<rparr>)))
         | _ \<Rightarrow> Inr None)"

subsection \<open>Surface formats\<close>

text \<open>The three masks of \<^verbatim>\<open>xcb_visualtype_t\<close> that the format query reads.\<close>

record xcb_visualtype_t =
  red_mask :: "32 word"
  green_mask :: "32 word"
  blue_mask :: "32 word"

text \<open>Modelled from the spec: \<^verbatim>\<open>util_bitcount\<close> of util/bitscan.h, which is not among the
  sources; the spec calls it the popcount of a mask, the number of bits set.\<close>

definition util_bitcount :: "32 word \<Rightarrow> nat" where
  "util_bitcount n = length (filter (bit n) [0..<32])"

text \<open>The table \<^verbatim>\<open>formats[]\<close>: format and \<^verbatim>\<open>bits_per_rgb\<close>.\<close>

definition formats :: "(VkFormat \<times> nat) list" where
  "formats = [(VK_FORMAT_B8G8R8A8_SRGB, 8), (VK_FORMAT_B8G8R8A8_UNORM, 8),
              (VK_FORMAT_A2R10G10B10_UNORM_PACK32, 10)]"

text \<open>The first loop of \<^verbatim>\<open>get_sorted_vk_formats\<close> walks the table and appends the
  formats it keeps; the second looks for BGRA8 UNORM and swaps it to the front.\<close>

primrec collect_formats ::
  "(VkFormat \<times> nat) list \<Rightarrow> xcb_visualtype_t \<Rightarrow> VkFormat list \<Rightarrow> VkFormat list" where
  "collect_formats [] visual sorted_formats = sorted_formats"
| "collect_formats (entry # rest) visual sorted_formats =
     collect_formats rest visual
       (if snd entry = util_bitcount (red_mask visual) \<and>
           snd entry = util_bitcount (green_mask visual) \<and>
           snd entry = util_bitcount (blue_mask visual)
        then sorted_formats @ [fst entry] else sorted_formats)"

function bgra8_unorm_first_loop :: "VkFormat list \<Rightarrow> nat \<Rightarrow> VkFormat list" where
  "bgra8_unorm_first_loop sorted_formats i =
     (if i < length sorted_formats then
        (if sorted_formats ! i = VK_FORMAT_B8G8R8A8_UNORM
         then (sorted_formats[i := sorted_formats ! 0])[0 := VK_FORMAT_B8G8R8A8_UNORM]
         else bgra8_unorm_first_loop sorted_formats (i + 1))
      else sorted_formats)"
  by pat_completeness auto
termination
  by (relation "measure (\<lambda>(sorted_formats, i). length sorted_formats - i)") auto

definition get_sorted_vk_formats ::
  "wsi_device \<Rightarrow> xcb_visualtype_t option \<Rightarrow> VkFormat list option" where
  "get_sorted_vk_formats wsi_dev visual =
     (case visual of
        None \<Rightarrow> None
      | Some v \<Rightarrow>
         (let sorted_formats = collect_formats formats v []
          in Some (if force_bgra8_unorm_first wsi_dev
                   then bgra8_unorm_first_loop sorted_formats 0
                   else sorted_formats)))"

text \<open>The format list as the specification words it: the members of the table whose
  bits per channel equal the popcount of each of the red, green and blue masks, in table
  order. It is compared with \<open>get_sorted_vk_formats\<close> below.\<close>

definition spec_kept_formats :: "xcb_visualtype_t \<Rightarrow> VkFormat list" where
  "spec_kept_formats v =
     map fst (filter (\<lambda>entry. snd entry = util_bitcount (red_mask v) \<and>
                              snd entry = util_bitcount (green_mask v) \<and>
                              snd entry = util_bitcount (blue_mask v)) formats)"

subsection \<open>Sequences of calls\<close>

text \<open>A run of the hardware present primitive, each call on the chain and the server the
  previous one left; a fault ends the run.\<close>

fun x11_present_sequence ::
  "bool \<Rightarrow> x11_swapchain \<Rightarrow> xserver \<Rightarrow> (32 word \<times> 64 word) list
     \<Rightarrow> fault + (x11_swapchain \<times> xserver)" where
  "x11_present_sequence HAVE_DRI3_MODIFIERS chain srv [] = Inr (chain, srv)"
| "x11_present_sequence HAVE_DRI3_MODIFIERS chain srv (call # calls) =
     (case x11_present_to_x11_dri3 HAVE_DRI3_MODIFIERS chain (fst call) (snd call) srv of
        Inl f \<Rightarrow> Inl f
      | Inr (result, chain1, srv1) \<Rightarrow>
          x11_present_sequence HAVE_DRI3_MODIFIERS chain1 srv1 calls)"

text \<open>The serials of the presentations submitted, in submission order.\<close>

fun presented_serials :: "xcb_request list \<Rightarrow> 32 word list" where
  "presented_serials [] = []"
| "presented_serials (XCB_PRESENT_PIXMAP w p s u f opts msc # reqs) = s # presented_serials reqs"
| "presented_serials (req # reqs) = presented_serials reqs"

fun set_region_requests :: "xcb_request list \<Rightarrow> xcb_request list" where
  "set_region_requests [] = []"
| "set_region_requests (XCB_XFIXES_SET_REGION region rects # reqs) =
     XCB_XFIXES_SET_REGION region rects # set_region_requests reqs"
| "set_region_requests (req # reqs) = set_region_requests reqs"

text \<open>The two entry points an application calls on a swapchain, and a run of such calls
  with the result of each.\<close>

datatype x11_call = Acquire "64 word" | Present "32 word" "VkPresentRegionKHR option"

definition x11_call_step ::
  "bool \<Rightarrow> x11_swapchain \<Rightarrow> xserver \<Rightarrow> x11_call
     \<Rightarrow> fault + (VkResult \<times> x11_swapchain \<times> xserver)" where
  "x11_call_step HAVE_DRI3_MODIFIERS chain srv call =
     (case call of
        Acquire timeout \<Rightarrow>
         (case x11_acquire_next_image HAVE_DRI3_MODIFIERS chain timeout srv of
            Inl f \<Rightarrow> Inl f
          | Inr (result, image_index, chain1, srv1) \<Rightarrow> Inr (result, chain1, srv1))
      | Present image_index damage \<Rightarrow>
          x11_queue_present HAVE_DRI3_MODIFIERS chain image_index damage srv)"

fun x11_calls ::
  "bool \<Rightarrow> x11_swapchain \<Rightarrow> xserver \<Rightarrow> x11_call list
     \<Rightarrow> fault + (VkResult list \<times> x11_swapchain \<times> xserver)" where
  "x11_calls HAVE_DRI3_MODIFIERS chain srv [] = Inr ([], chain, srv)"
| "x11_calls HAVE_DRI3_MODIFIERS chain srv (call # calls) =
     (case x11_call_step HAVE_DRI3_MODIFIERS chain srv call of
        Inl f \<Rightarrow> Inl f
      | Inr (result, chain1, srv1) \<Rightarrow>
         (case x11_calls HAVE_DRI3_MODIFIERS chain1 srv1 calls of
            Inl f \<Rightarrow> Inl f
          | Inr (results, chain2, srv2) \<Rightarrow> Inr (result # results, chain2, srv2)))"

subsection \<open>A swapchain as creation leaves it\<close>

text \<open>The state \<^verbatim>\<open>x11_surface_create_swapchain\<close> writes into a new chain (counters zero,
  no queues, status success, \<open>copy_is_suboptimal\<close> false), here for a hardware device in
  immediate mode with two idle images of a 640 by 480 window, and a quiet server whose
  window has that size.\<close>

definition device0 :: wsi_device where
  "device0 = \<lparr>sw = False, has_import_memory_host = False, force_bgra8_unorm_first = False,
              override_minImageCount = 0, strict_imageCount = False,
              ensure_minImageCount = False, xwaylandWaitReady = True\<rparr>"

definition connection0 :: wsi_x11_connection where
  "connection0 = \<lparr>has_dri3 = True, has_dri3_modifiers = False, has_present = True,
                  is_proprietary_x11 = False, is_xwayland = False, has_mit_shm = False,
                  has_xfixes = True\<rparr>"

definition image0 :: "32 word \<Rightarrow> x11_image" where
  "image0 n = \<lparr>pixmap = 16 + n, update_region = 32 + n, update_area = 0, busy = False,
               present_queued = False, sync_fence = 48 + n, serial = 0, row_pitch = 2560\<rparr>"

definition chain0 :: x11_swapchain where
  "chain0 = \<lparr>wsi = device0, present_mode = VK_PRESENT_MODE_IMMEDIATE_KHR,
             chain_has_dri3_modifiers = False, chain_has_mit_shm = False,
             window = 1, gc = 2, extent = \<lparr>width = 640, height = 480\<rparr>,
             send_sbc = 0, last_present_msc = 0, sent_image_count = 0,
             has_present_queue = False, has_acquire_queue = False,
             status = VK_SUCCESS, copy_is_suboptimal = False,
             present_queue = [], acquire_queue = [], images = [image0 0, image0 1]\<rparr>"

definition xserver0 :: xserver where
  "xserver0 = \<lparr>wsi_conn = Some connection0, special_events = [], request_checks = [],
               fd_polls = [], clock = 0, geometry = Some (640, 480),
               maximum_request_length = 4194303, requests = []\<rparr>"

text \<open>The replies of a server that has DRI3 1.2, Present 1.2, XFIXES 6.0 and RANDR 1.6
  and is neither XWayland nor a proprietary stack.\<close>

definition probe0 :: x11_probe where
  "probe0 = \<lparr>alloc_ok = True, dri3_reply = Some True, pres_reply = Some True,
             randr_reply = Some True, amd_reply = Some False, nv_reply = Some False,
             xfixes_reply = Some True, xwl_reply = Some False, shm_reply = Some True,
             dri3_version = Some (1, 2), present_version = Some (1, 2),
             xfixes_version = Some (6, 0), randr_version = Some (1, 6),
             shm_shared_pixmaps = Some True, shm_detach_error = Some 128,
             randr_num_outputs = Some 1, randr_output_name = Some ''eDP-1''\<rparr>"

section \<open>Properties\<close>

declare idle_notify_loop.simps [simp del]
declare bgra8_unorm_first_loop.simps [simp del]
declare x11_acquire_next_image_poll_x11.simps [simp del]

lemmas vk_result_defs =
  VK_SUCCESS_def VK_NOT_READY_def VK_TIMEOUT_def VK_SUBOPTIMAL_KHR_def
  VK_ERROR_OUT_OF_HOST_MEMORY_def VK_ERROR_SURFACE_LOST_KHR_def VK_ERROR_OUT_OF_DATE_KHR_def

subsection \<open>The status latch\<close>

lemma x11_swapchain_result_negative:
  "status chain < 0 \<Longrightarrow> x11_swapchain_result chain r = (status chain, chain)"
  by (simp add: x11_swapchain_result_def)

lemma x11_swapchain_results_negative:
  "status chain < 0 \<Longrightarrow>
   x11_swapchain_results chain rs = (replicate (length rs) (status chain), chain)"
  by (induction rs) (simp_all add: x11_swapchain_result_negative)

lemma result_images: "images (snd (x11_swapchain_result c r)) = images c"
  by (simp add: x11_swapchain_result_def)

lemma result_send_sbc: "send_sbc (snd (x11_swapchain_result c r)) = send_sbc c"
  by (simp add: x11_swapchain_result_def)

lemma suboptimal_results:
  "status chain = VK_SUBOPTIMAL_KHR \<Longrightarrow>
   status (snd (x11_swapchain_results chain rs)) =
     (case List.find (\<lambda>r. r < 0) rs of None \<Rightarrow> VK_SUBOPTIMAL_KHR | Some e \<Rightarrow> e)"
proof (induction rs arbitrary: chain)
  case Nil
  then show ?case by simp
next
  case (Cons r rs)
  show ?case
  proof (cases "r < 0")
    case True
    have st: "status (chain\<lparr>status := r\<rparr>) < 0" using True by simp
    have "x11_swapchain_result chain r = (r, chain\<lparr>status := r\<rparr>)"
      using Cons.prems True by (simp add: x11_swapchain_result_def vk_result_defs)
    then show ?thesis
      using True x11_swapchain_results_negative [OF st, of rs]
      by (simp add: split_def Let_def)
  next
    case False
    have "snd (x11_swapchain_result chain r) = chain \<or>
          snd (x11_swapchain_result chain r) = chain\<lparr>status := VK_SUBOPTIMAL_KHR\<rparr>"
      using Cons.prems False by (simp add: x11_swapchain_result_def vk_result_defs)
    moreover have "chain\<lparr>status := VK_SUBOPTIMAL_KHR\<rparr> = chain" using Cons.prems by simp
    ultimately have eq: "snd (x11_swapchain_result chain r) = chain" by auto
    show ?thesis
      using False Cons.IH [OF Cons.prems] eq
      by (simp add: split_def Let_def)
  qed
qed

lemma x11_call_step_negative:
  "status chain < 0 \<Longrightarrow> x11_call_step hm chain srv call = Inr (status chain, chain, srv)"
  by (cases call) (simp_all add: x11_call_step_def x11_acquire_next_image_def x11_queue_present_def)

lemma x11_calls_negative:
  "status chain < 0 \<Longrightarrow>
   x11_calls hm chain srv calls = Inr (replicate (length calls) (status chain), chain, srv)"
  by (induction calls) (simp_all add: x11_call_step_negative)

text \<open>
  C1. The latch is sticky. A negative result merged into a chain whose status is not
  negative is stored and reported. Once the stored status is negative, every later
  merge reports that same value and leaves the chain as it is, and every later acquire
  and present call returns that value without touching the chain or the server. A
  stored \<open>VK_SUBOPTIMAL_KHR\<close> stays over any sequence of merges until the first negative
  result, which replaces it for good.
\<close>

theorem status_latch_sticky:
  "(0 \<le> status chain \<and> r < 0 \<longrightarrow> x11_swapchain_result chain r = (r, chain\<lparr>status := r\<rparr>)) \<and>
   (status chain < 0 \<longrightarrow>
      x11_swapchain_results chain rs = (replicate (length rs) (status chain), chain) \<and>
      x11_calls hm chain srv calls = Inr (replicate (length calls) (status chain), chain, srv)) \<and>
   (status chain = VK_SUBOPTIMAL_KHR \<longrightarrow>
      status (snd (x11_swapchain_results chain rs)) =
        (case List.find (\<lambda>r. r < 0) rs of None \<Rightarrow> VK_SUBOPTIMAL_KHR | Some e \<Rightarrow> e))"
proof (intro conjI impI)
  assume "0 \<le> status chain \<and> r < 0"
  then show "x11_swapchain_result chain r = (r, chain\<lparr>status := r\<rparr>)"
    by (simp add: x11_swapchain_result_def)
next
  assume "status chain < 0"
  then show "x11_swapchain_results chain rs = (replicate (length rs) (status chain), chain)"
    by (rule x11_swapchain_results_negative)
next
  assume "status chain < 0"
  then show "x11_calls hm chain srv calls =
      Inr (replicate (length calls) (status chain), chain, srv)"
    by (rule x11_calls_negative)
next
  assume "status chain = VK_SUBOPTIMAL_KHR"
  then show "status (snd (x11_swapchain_results chain rs)) =
        (case List.find (\<lambda>r. r < 0) rs of None \<Rightarrow> VK_SUBOPTIMAL_KHR | Some e \<Rightarrow> e)"
    by (rule suboptimal_results)
qed

theorem status_latch_sticky_witness:
  "x11_swapchain_result chain0 VK_ERROR_SURFACE_LOST_KHR =
     (VK_ERROR_SURFACE_LOST_KHR, chain0\<lparr>status := VK_ERROR_SURFACE_LOST_KHR\<rparr>) \<and>
   x11_swapchain_results (chain0\<lparr>status := VK_ERROR_SURFACE_LOST_KHR\<rparr>)
       [VK_SUCCESS, VK_SUBOPTIMAL_KHR, VK_TIMEOUT, VK_ERROR_OUT_OF_DATE_KHR] =
     ([VK_ERROR_SURFACE_LOST_KHR, VK_ERROR_SURFACE_LOST_KHR, VK_ERROR_SURFACE_LOST_KHR,
       VK_ERROR_SURFACE_LOST_KHR], chain0\<lparr>status := VK_ERROR_SURFACE_LOST_KHR\<rparr>) \<and>
   x11_calls False (chain0\<lparr>status := VK_ERROR_SURFACE_LOST_KHR\<rparr>) xserver0
       [Acquire 0, Present 0 None, Acquire UINT64_MAX] =
     Inr ([VK_ERROR_SURFACE_LOST_KHR, VK_ERROR_SURFACE_LOST_KHR, VK_ERROR_SURFACE_LOST_KHR],
          chain0\<lparr>status := VK_ERROR_SURFACE_LOST_KHR\<rparr>, xserver0) \<and>
   status (snd (x11_swapchain_results (chain0\<lparr>status := VK_SUBOPTIMAL_KHR\<rparr>)
       [VK_SUCCESS, VK_TIMEOUT, VK_SUBOPTIMAL_KHR])) = VK_SUBOPTIMAL_KHR \<and>
   status (snd (x11_swapchain_results (chain0\<lparr>status := VK_SUBOPTIMAL_KHR\<rparr>)
       [VK_SUCCESS, VK_ERROR_OUT_OF_DATE_KHR, VK_ERROR_SURFACE_LOST_KHR])) =
     VK_ERROR_OUT_OF_DATE_KHR"
  using status_latch_sticky [of chain0 VK_ERROR_SURFACE_LOST_KHR]
    status_latch_sticky [of "chain0\<lparr>status := VK_ERROR_SURFACE_LOST_KHR\<rparr>" 0
      "[VK_SUCCESS, VK_SUBOPTIMAL_KHR, VK_TIMEOUT, VK_ERROR_OUT_OF_DATE_KHR]" False xserver0
      "[Acquire 0, Present 0 None, Acquire UINT64_MAX]"]
    status_latch_sticky [of "chain0\<lparr>status := VK_SUBOPTIMAL_KHR\<rparr>" 0
      "[VK_SUCCESS, VK_TIMEOUT, VK_SUBOPTIMAL_KHR]"]
    status_latch_sticky [of "chain0\<lparr>status := VK_SUBOPTIMAL_KHR\<rparr>" 0
      "[VK_SUCCESS, VK_ERROR_OUT_OF_DATE_KHR, VK_ERROR_SURFACE_LOST_KHR]"]
  by (simp add: vk_result_defs chain0_def)

text \<open>
  C2 (as amended). When \<open>VK_TIMEOUT\<close> or \<open>VK_NOT_READY\<close> is merged into the latch, the
  stored status is never written. If the stored status is negative, the call reports
  that stored negative status (existing errors take priority), not the transient result;
  if the stored status is not negative (success or suboptimal), the call reports the
  transient result.
\<close>

theorem transient_result_on_latch:
  assumes "r = VK_TIMEOUT \<or> r = VK_NOT_READY"
  shows "(status chain < 0 \<longrightarrow> x11_swapchain_result chain r = (status chain, chain)) \<and>
         (0 \<le> status chain \<longrightarrow> x11_swapchain_result chain r = (r, chain))"
  using assms by (auto simp add: x11_swapchain_result_def vk_result_defs)

theorem transient_result_on_latch_witness:
  "x11_swapchain_result (chain0\<lparr>status := VK_ERROR_SURFACE_LOST_KHR\<rparr>) VK_TIMEOUT =
     (VK_ERROR_SURFACE_LOST_KHR, chain0\<lparr>status := VK_ERROR_SURFACE_LOST_KHR\<rparr>) \<and>
   x11_swapchain_result (chain0\<lparr>status := VK_SUBOPTIMAL_KHR\<rparr>) VK_NOT_READY =
     (VK_NOT_READY, chain0\<lparr>status := VK_SUBOPTIMAL_KHR\<rparr>)"
  using transient_result_on_latch [of VK_TIMEOUT "chain0\<lparr>status := VK_ERROR_SURFACE_LOST_KHR\<rparr>"]
    transient_result_on_latch [of VK_NOT_READY "chain0\<lparr>status := VK_SUBOPTIMAL_KHR\<rparr>"]
  by (simp add: vk_result_defs)

text \<open>C2 in its first wording (a transient result is reported even over a negative
  status) fails: on a chain whose status is out-of-date, merging \<open>VK_TIMEOUT\<close> reports
  out-of-date, not the timeout.\<close>

theorem transient_result_not_reported_when_negative:
  "status (chain0\<lparr>status := VK_ERROR_OUT_OF_DATE_KHR\<rparr>) < 0 \<and>
   fst (x11_swapchain_result (chain0\<lparr>status := VK_ERROR_OUT_OF_DATE_KHR\<rparr>) VK_TIMEOUT)
     = VK_ERROR_OUT_OF_DATE_KHR \<and>
   fst (x11_swapchain_result (chain0\<lparr>status := VK_ERROR_OUT_OF_DATE_KHR\<rparr>) VK_TIMEOUT)
     \<noteq> VK_TIMEOUT"
  by (simp add: x11_swapchain_result_def vk_result_defs)

subsection \<open>Fence-wait policy and image count\<close>

text \<open>
  C4 (as amended). The fence-wait predicate is false on XWayland whenever the
  \<open>xwaylandWaitReady\<close> option is off, whatever the mode. Otherwise it is true in mailbox
  mode, equal to \<open>is_xwayland\<close> in immediate mode, and false in every other mode. So in
  mailbox mode it is true unless the connection is XWayland with the option off; in
  immediate mode it is \<open>is_xwayland \<and> xwaylandWaitReady\<close>; in fifo and fifo-relaxed it
  is false.
\<close>

theorem needs_wait_for_fences_policy:
  "x11_needs_wait_for_fences wsi_dev conn mode =
     (case mode of
        VK_PRESENT_MODE_MAILBOX_KHR \<Rightarrow> \<not> (is_xwayland conn \<and> \<not> xwaylandWaitReady wsi_dev)
      | VK_PRESENT_MODE_IMMEDIATE_KHR \<Rightarrow> is_xwayland conn \<and> xwaylandWaitReady wsi_dev
      | _ \<Rightarrow> False)"
  by (cases mode) (auto simp add: x11_needs_wait_for_fences_def)

theorem needs_wait_for_fences_policy_witness:
  "x11_needs_wait_for_fences device0 connection0 VK_PRESENT_MODE_MAILBOX_KHR \<and>
   x11_needs_wait_for_fences device0 (connection0\<lparr>is_xwayland := True\<rparr>)
     VK_PRESENT_MODE_IMMEDIATE_KHR \<and>
   \<not> x11_needs_wait_for_fences device0 connection0 VK_PRESENT_MODE_IMMEDIATE_KHR \<and>
   \<not> x11_needs_wait_for_fences device0 connection0 VK_PRESENT_MODE_FIFO_KHR"
  using needs_wait_for_fences_policy [of device0 connection0 VK_PRESENT_MODE_MAILBOX_KHR]
    needs_wait_for_fences_policy [of device0 "connection0\<lparr>is_xwayland := True\<rparr>"
      VK_PRESENT_MODE_IMMEDIATE_KHR]
    needs_wait_for_fences_policy [of device0 connection0 VK_PRESENT_MODE_IMMEDIATE_KHR]
    needs_wait_for_fences_policy [of device0 connection0 VK_PRESENT_MODE_FIFO_KHR]
  by (simp add: device0_def connection0_def)

text \<open>C4 in its first wording (mailbox always waits) fails: in mailbox mode on XWayland
  with the wait-ready option off, the predicate is false.\<close>

theorem mailbox_on_xwayland_without_wait_ready:
  "\<not> x11_needs_wait_for_fences (device0\<lparr>xwaylandWaitReady := False\<rparr>)
       (connection0\<lparr>is_xwayland := True\<rparr>) VK_PRESENT_MODE_MAILBOX_KHR"
  by (simp add: x11_needs_wait_for_fences_def)

lemma MAX2_max: "MAX2 a b = max a b"
  by (auto simp add: MAX2_def max_def)

text \<open>
  C8. The image count resolved at swapchain creation is the requested \<open>minImageCount\<close>
  when \<open>strict_imageCount\<close> is set; otherwise the larger of the request and 5 when the
  fence-wait policy applies to the connection and present mode; otherwise, when
  \<open>ensure_minImageCount\<close> is set, the larger of the request and the floor, which is
  \<open>override_minImageCount\<close> if that is nonzero and 3 if not; otherwise the request.
\<close>

theorem num_images_resolution:
  "x11_surface_create_swapchain_num_images wsi_dev conn mode requested =
     (if strict_imageCount wsi_dev then requested
      else if x11_needs_wait_for_fences wsi_dev conn mode then max requested 5
      else if ensure_minImageCount wsi_dev
        then max requested
               (if override_minImageCount wsi_dev \<noteq> 0 then override_minImageCount wsi_dev else 3)
      else requested)"
  by (simp add: x11_surface_create_swapchain_num_images_def MAX2_max
        x11_get_min_image_count_def)

theorem num_images_resolution_witness:
  "x11_surface_create_swapchain_num_images (device0\<lparr>strict_imageCount := True\<rparr>) connection0
     VK_PRESENT_MODE_MAILBOX_KHR 2 = 2 \<and>
   x11_surface_create_swapchain_num_images device0 connection0 VK_PRESENT_MODE_MAILBOX_KHR 2 = 5 \<and>
   x11_surface_create_swapchain_num_images (device0\<lparr>ensure_minImageCount := True\<rparr>) connection0
     VK_PRESENT_MODE_FIFO_KHR 2 = 3 \<and>
   x11_surface_create_swapchain_num_images
     (device0\<lparr>ensure_minImageCount := True, override_minImageCount := 4\<rparr>) connection0
     VK_PRESENT_MODE_FIFO_KHR 2 = 4 \<and>
   x11_surface_create_swapchain_num_images device0 connection0 VK_PRESENT_MODE_FIFO_KHR 2 = 2"
  using num_images_resolution [of "device0\<lparr>strict_imageCount := True\<rparr>" connection0
      VK_PRESENT_MODE_MAILBOX_KHR 2]
    num_images_resolution [of device0 connection0 VK_PRESENT_MODE_MAILBOX_KHR 2]
    num_images_resolution [of "device0\<lparr>ensure_minImageCount := True\<rparr>" connection0
      VK_PRESENT_MODE_FIFO_KHR 2]
    num_images_resolution [of "device0\<lparr>ensure_minImageCount := True, override_minImageCount := 4\<rparr>"
      connection0 VK_PRESENT_MODE_FIFO_KHR 2]
    num_images_resolution [of device0 connection0 VK_PRESENT_MODE_FIFO_KHR 2]
  by (simp add: device0_def connection0_def x11_needs_wait_for_fences_def)

subsection \<open>Surface formats\<close>

lemma collect_formats_filter:
  "collect_formats tbl v acc =
     acc @ map fst (filter (\<lambda>entry. snd entry = util_bitcount (red_mask v) \<and>
                                   snd entry = util_bitcount (green_mask v) \<and>
                                   snd entry = util_bitcount (blue_mask v)) tbl)"
  by (induction tbl arbitrary: acc) simp_all

lemma bgra8_loop_found:
  "i \<le> k \<Longrightarrow> k < length xs \<Longrightarrow> xs ! k = VK_FORMAT_B8G8R8A8_UNORM \<Longrightarrow>
   (\<forall>j. i \<le> j \<and> j < k \<longrightarrow> xs ! j \<noteq> VK_FORMAT_B8G8R8A8_UNORM) \<Longrightarrow>
   bgra8_unorm_first_loop xs i = (xs[k := xs ! 0])[0 := VK_FORMAT_B8G8R8A8_UNORM]"
proof (induction xs i rule: bgra8_unorm_first_loop.induct)
  case (1 xs i)
  show ?case
  proof (cases "i = k")
    case True
    then show ?thesis using "1.prems" by (subst bgra8_unorm_first_loop.simps) simp
  next
    case False
    then have lt: "i < k" using "1.prems" by simp
    then have ne: "xs ! i \<noteq> VK_FORMAT_B8G8R8A8_UNORM" using "1.prems" by simp
    have il: "i < length xs" using lt "1.prems" by simp
    have "bgra8_unorm_first_loop xs (i + 1) = (xs[k := xs ! 0])[0 := VK_FORMAT_B8G8R8A8_UNORM]"
      using "1.IH" [OF il ne] lt "1.prems" by simp
    then show ?thesis using il ne by (subst bgra8_unorm_first_loop.simps) simp
  qed
qed

lemma bgra8_loop_absent:
  "(\<forall>j. i \<le> j \<and> j < length xs \<longrightarrow> xs ! j \<noteq> VK_FORMAT_B8G8R8A8_UNORM) \<Longrightarrow>
   bgra8_unorm_first_loop xs i = xs"
proof (induction xs i rule: bgra8_unorm_first_loop.induct)
  case (1 xs i)
  show ?case
  proof (cases "i < length xs")
    case True
    then have ne: "xs ! i \<noteq> VK_FORMAT_B8G8R8A8_UNORM" using "1.prems" by simp
    have "bgra8_unorm_first_loop xs (i + 1) = xs"
      using "1.IH" [OF True ne] "1.prems" by simp
    then show ?thesis using True ne by (subst bgra8_unorm_first_loop.simps) simp
  next
    case False
    then show ?thesis by (subst bgra8_unorm_first_loop.simps) simp
  qed
qed

lemma collect_formats_spec: "collect_formats formats v [] = spec_kept_formats v"
  by (simp add: collect_formats_filter spec_kept_formats_def)

text \<open>
  C9. When the window has no visual the query fails. Otherwise it returns exactly the
  members of the fixed table whose bits per channel equal the popcount of each of the
  red, green and blue masks of the visual, in table order (\<open>spec_kept_formats\<close>); and
  when \<open>force_bgra8_unorm_first\<close> is set and BGRA8 UNORM is among them, at its first
  position \<open>k\<close>, it is put at position 0 and the previous first element takes position
  \<open>k\<close>.
\<close>

theorem sorted_vk_formats:
  "get_sorted_vk_formats wsi_dev None = None \<and>
   (\<not> (force_bgra8_unorm_first wsi_dev \<and> VK_FORMAT_B8G8R8A8_UNORM \<in> set (spec_kept_formats v)) \<longrightarrow>
      get_sorted_vk_formats wsi_dev (Some v) = Some (spec_kept_formats v)) \<and>
   (force_bgra8_unorm_first wsi_dev \<and> k < length (spec_kept_formats v) \<and>
    spec_kept_formats v ! k = VK_FORMAT_B8G8R8A8_UNORM \<and>
    (\<forall>j<k. spec_kept_formats v ! j \<noteq> VK_FORMAT_B8G8R8A8_UNORM) \<longrightarrow>
      get_sorted_vk_formats wsi_dev (Some v) =
        Some ((spec_kept_formats v)[k := spec_kept_formats v ! 0, 0 := VK_FORMAT_B8G8R8A8_UNORM]))"
proof (intro conjI impI)
  show "get_sorted_vk_formats wsi_dev None = None"
    by (simp add: get_sorted_vk_formats_def)
next
  assume a: "\<not> (force_bgra8_unorm_first wsi_dev \<and>
                VK_FORMAT_B8G8R8A8_UNORM \<in> set (spec_kept_formats v))"
  show "get_sorted_vk_formats wsi_dev (Some v) = Some (spec_kept_formats v)"
  proof (cases "force_bgra8_unorm_first wsi_dev")
    case False
    then show ?thesis by (simp add: get_sorted_vk_formats_def collect_formats_spec)
  next
    case True
    then have "VK_FORMAT_B8G8R8A8_UNORM \<notin> set (spec_kept_formats v)" using a by simp
    then have "\<forall>j. 0 \<le> j \<and> j < length (spec_kept_formats v) \<longrightarrow>
                 spec_kept_formats v ! j \<noteq> VK_FORMAT_B8G8R8A8_UNORM"
      by (metis nth_mem)
    then have "bgra8_unorm_first_loop (spec_kept_formats v) 0 = spec_kept_formats v"
      by (rule bgra8_loop_absent)
    then show ?thesis using True by (simp add: get_sorted_vk_formats_def collect_formats_spec)
  qed
next
  assume a: "force_bgra8_unorm_first wsi_dev \<and> k < length (spec_kept_formats v) \<and>
    spec_kept_formats v ! k = VK_FORMAT_B8G8R8A8_UNORM \<and>
    (\<forall>j<k. spec_kept_formats v ! j \<noteq> VK_FORMAT_B8G8R8A8_UNORM)"
  then have "bgra8_unorm_first_loop (spec_kept_formats v) 0 =
      ((spec_kept_formats v)[k := spec_kept_formats v ! 0])[0 := VK_FORMAT_B8G8R8A8_UNORM]"
    by (intro bgra8_loop_found) simp_all
  then show "get_sorted_vk_formats wsi_dev (Some v) =
        Some ((spec_kept_formats v)[k := spec_kept_formats v ! 0, 0 := VK_FORMAT_B8G8R8A8_UNORM])"
    using a by (simp add: get_sorted_vk_formats_def collect_formats_spec)
qed

lemma spec_kept_formats_rgb8:
  "spec_kept_formats \<lparr>red_mask = 0xFF0000, green_mask = 0xFF00, blue_mask = 0xFF\<rparr> =
     [VK_FORMAT_B8G8R8A8_SRGB, VK_FORMAT_B8G8R8A8_UNORM]"
  by code_simp

lemma spec_kept_formats_rgb10:
  "spec_kept_formats \<lparr>red_mask = 0x3FF00000, green_mask = 0xFFC00, blue_mask = 0x3FF\<rparr> =
     [VK_FORMAT_A2R10G10B10_UNORM_PACK32]"
  by code_simp

theorem sorted_vk_formats_witness:
  "get_sorted_vk_formats (device0\<lparr>force_bgra8_unorm_first := True\<rparr>)
     (Some \<lparr>red_mask = 0xFF0000, green_mask = 0xFF00, blue_mask = 0xFF\<rparr>) =
     Some [VK_FORMAT_B8G8R8A8_UNORM, VK_FORMAT_B8G8R8A8_SRGB] \<and>
   get_sorted_vk_formats (device0\<lparr>force_bgra8_unorm_first := True\<rparr>)
     (Some \<lparr>red_mask = 0x3FF00000, green_mask = 0xFFC00, blue_mask = 0x3FF\<rparr>) =
     Some [VK_FORMAT_A2R10G10B10_UNORM_PACK32]"
  using sorted_vk_formats [of "device0\<lparr>force_bgra8_unorm_first := True\<rparr>"
      "\<lparr>red_mask = 0xFF0000, green_mask = 0xFF00, blue_mask = 0xFF\<rparr>" 1]
    sorted_vk_formats [of "device0\<lparr>force_bgra8_unorm_first := True\<rparr>"
      "\<lparr>red_mask = 0x3FF00000, green_mask = 0xFFC00, blue_mask = 0x3FF\<rparr>" 0]
  by (simp add: spec_kept_formats_rgb8 spec_kept_formats_rgb10)

subsection \<open>Acquire on the software path\<close>

text \<open>
  C3. Acquire on a software swapchain without MIT-SHM returns its result without merging
  it into the status latch. On a fresh software chain whose window is gone, acquire
  returns \<open>VK_ERROR_SURFACE_LOST_KHR\<close> and the status is still \<open>VK_SUCCESS\<close>, so the
  next acquire (the window back) returns success; likewise a \<open>VK_SUBOPTIMAL_KHR\<close>
  returned for a resized window leaves the status at success.
\<close>

theorem sw_acquire_bypasses_latch:
  "x11_acquire_next_image False (chain0\<lparr>wsi := device0\<lparr>sw := True\<rparr>\<rparr>) 0
       (xserver0\<lparr>geometry := None\<rparr>) =
     Inr (VK_ERROR_SURFACE_LOST_KHR, Some 0,
          chain0\<lparr>wsi := device0\<lparr>sw := True\<rparr>, images := [(image0 0)\<lparr>busy := True\<rparr>, image0 1]\<rparr>,
          xserver0\<lparr>geometry := None\<rparr>) \<and>
   status (chain0\<lparr>wsi := device0\<lparr>sw := True\<rparr>,
                    images := [(image0 0)\<lparr>busy := True\<rparr>, image0 1]\<rparr>) = VK_SUCCESS \<and>
   x11_acquire_next_image False
       (chain0\<lparr>wsi := device0\<lparr>sw := True\<rparr>, images := [(image0 0)\<lparr>busy := True\<rparr>, image0 1]\<rparr>) 0
       xserver0 =
     Inr (VK_SUCCESS, Some 1,
          chain0\<lparr>wsi := device0\<lparr>sw := True\<rparr>,
                  images := [(image0 0)\<lparr>busy := True\<rparr>, (image0 1)\<lparr>busy := True\<rparr>]\<rparr>,
          xserver0) \<and>
   x11_acquire_next_image False (chain0\<lparr>wsi := device0\<lparr>sw := True\<rparr>\<rparr>) 0
       (xserver0\<lparr>geometry := Some (800, 600)\<rparr>) =
     Inr (VK_SUBOPTIMAL_KHR, Some 0,
          chain0\<lparr>wsi := device0\<lparr>sw := True\<rparr>, images := [(image0 0)\<lparr>busy := True\<rparr>, image0 1]\<rparr>,
          xserver0\<lparr>geometry := Some (800, 600)\<rparr>)"
  by (simp add: x11_acquire_next_image_def chain0_def device0_def xserver0_def image0_def
        vk_result_defs)

theorem sw_acquire_bypasses_latch_witness:
  "(case x11_acquire_next_image False (chain0\<lparr>wsi := device0\<lparr>sw := True\<rparr>\<rparr>) 0
           (xserver0\<lparr>geometry := None\<rparr>) of
      Inl f \<Rightarrow> False
    | Inr (result, image_index, chain1, srv1) \<Rightarrow>
        result = VK_ERROR_SURFACE_LOST_KHR \<and> result < 0 \<and> status chain1 = VK_SUCCESS \<and>
        fst (x11_swapchain_result (chain0\<lparr>wsi := device0\<lparr>sw := True\<rparr>\<rparr>) result) = result \<and>
        status (snd (x11_swapchain_result (chain0\<lparr>wsi := device0\<lparr>sw := True\<rparr>\<rparr>) result))
          = result)"
  using sw_acquire_bypasses_latch
  by (simp add: x11_swapchain_result_def chain0_def vk_result_defs)

subsection \<open>The present primitive\<close>

lemma idle_loop_send_sbc: "send_sbc (idle_notify_loop c p i) = send_sbc c"
proof (induction c p i rule: idle_notify_loop.induct)
  case (1 chain idle_pixmap i)
  then show ?case by (subst idle_notify_loop.simps) simp
qed

lemma idle_loop_length: "length (images (idle_notify_loop c p i)) = length (images c)"
proof (induction c p i rule: idle_notify_loop.induct)
  case (1 chain idle_pixmap i)
  then show ?case by (subst idle_notify_loop.simps) simp
qed

lemma idle_loop_update_area:
  "map update_area (images (idle_notify_loop c p i)) = map update_area (images c)"
proof (induction c p i rule: idle_notify_loop.induct)
  case (1 chain idle_pixmap i)
  then show ?case
    by (subst idle_notify_loop.simps) (simp add: map_update list_update_same_conv)
qed

lemma complete_update_area:
  "update_area (complete_notify_image s img) = update_area img"
  by (simp add: complete_notify_image_def)

lemma handle_send_sbc:
  "send_sbc (snd (x11_handle_dri3_present_event hm c ev)) = send_sbc c"
  by (cases ev) (simp_all add: x11_handle_dri3_present_event_def Let_def idle_loop_send_sbc)

lemma handle_length:
  "length (images (snd (x11_handle_dri3_present_event hm c ev))) = length (images c)"
  by (cases ev) (simp_all add: x11_handle_dri3_present_event_def Let_def idle_loop_length)

lemma handle_update_area:
  "map update_area (images (snd (x11_handle_dri3_present_event hm c ev))) =
   map update_area (images c)"
  by (cases ev)
     (simp_all add: x11_handle_dri3_present_event_def Let_def idle_loop_update_area
        complete_update_area)

lemma poll_events_inv:
  "present_poll_events hm c es = (early, c', es') \<Longrightarrow>
   send_sbc c' = send_sbc c \<and> length (images c') = length (images c) \<and>
   map update_area (images c') = map update_area (images c)"
proof (induction hm c es rule: present_poll_events.induct)
  case (1 hm chain)
  then show ?case by simp
next
  case (2 hm chain es)
  then show ?case by simp
next
  case (3 hm chain event es)
  obtain r1 c1 where h: "x11_handle_dri3_present_event hm chain event = (r1, c1)"
    by (cases "x11_handle_dri3_present_event hm chain event")
  obtain r2 c2 where m: "x11_swapchain_result c1 r1 = (r2, c2)"
    by (cases "x11_swapchain_result c1 r1")
  have c1: "send_sbc c1 = send_sbc chain" "length (images c1) = length (images chain)"
    "map update_area (images c1) = map update_area (images chain)"
    using handle_send_sbc [of hm chain event] handle_length [of hm chain event]
      handle_update_area [of hm chain event] h by simp_all
  have c2: "send_sbc c2 = send_sbc c1" "images c2 = images c1"
    using result_send_sbc [of c1 r1] result_images [of c1 r1] m by simp_all
  show ?case
  proof (cases "r2 < 0")
    case True
    then have "c' = c2" using "3.prems" h m by simp
    then show ?thesis using c1 c2 by simp
  next
    case False
    then have "present_poll_events hm c2 es = (early, c', es')"
      using "3.prems" h m by simp
    then have "send_sbc c' = send_sbc c2 \<and> length (images c') = length (images c2) \<and>
       map update_area (images c') = map update_area (images c2)"
      using "3.IH" [OF h [symmetric] refl m [symmetric] refl False] by simp
    then show ?thesis using c1 c2 by simp
  qed
qed


lemma request_check_requests: "requests (snd (xcb_request_check srv)) = requests srv"
  by (simp add: xcb_request_check_def split: list.splits)

text \<open>What one call of the hardware present primitive does to the counter, the slot and the trace.\<close>

lemma present_dri3_step:
  assumes "x11_present_to_x11_dri3 hm c i msc s = Inr (r, c', s')"
  shows "(send_sbc c' = send_sbc c \<and> requests s' = requests s \<and>
          map update_area (images c') = map update_area (images c)) \<or>
         (send_sbc c' = send_sbc c + 1 \<and>
          map update_area (images c') = map update_area (images c) \<and>
          unat i < length (images c') \<and>
          serial (images c' ! unat i) = ucast (send_sbc c + 1) \<and>
          present_queued (images c' ! unat i) \<and>
          (\<exists>w p u f opts.
             requests s' = requests s @
               [XCB_PRESENT_PIXMAP w p (ucast (send_sbc c + 1)) u f opts msc]))"
proof -
  from assms have i: "unat i < length (images c)"
    by (simp add: x11_present_to_x11_dri3_def split: if_splits)
  show ?thesis
  proof (cases "wsi_conn s")
    case None
    then show ?thesis using assms i by (simp add: x11_present_to_x11_dri3_def)
  next
    case (Some conn)
    obtain early c1 es where p: "present_poll_events hm c (special_events s) = (early, c1, es)"
      by (cases "present_poll_events hm c (special_events s)")
    note inv = poll_events_inv [OF p]
    show ?thesis
    proof (cases early)
      case (Some e)
      then show ?thesis
        using assms i \<open>wsi_conn s = Some conn\<close> p inv
        by (auto simp add: x11_present_to_x11_dri3_def Let_def)
    next
      case None
      define img where
        "img = (images c1 ! unat i)\<lparr>present_queued := True, serial := ucast (send_sbc c1 + 1)\<rparr>"
      define c3 where
        "c3 = c1\<lparr>sent_image_count := sent_image_count c1 + 1, send_sbc := send_sbc c1 + 1,
                  images := (images c1)[unat i := img]\<rparr>"
      define o1 where
        "o1 = (if present_mode c = VK_PRESENT_MODE_IMMEDIATE_KHR \<or>
                  (present_mode c = VK_PRESENT_MODE_MAILBOX_KHR \<and> is_xwayland conn) \<or>
                  present_mode c = VK_PRESENT_MODE_FIFO_RELAXED_KHR
               then XCB_PRESENT_OPTION_NONE OR XCB_PRESENT_OPTION_ASYNC
               else XCB_PRESENT_OPTION_NONE)"
      define opts where
        "opts = (if hm \<and> chain_has_dri3_modifiers c
                 then o1 OR XCB_PRESENT_OPTION_SUBOPTIMAL else o1)"
      define s2 where
        "s2 = xcb_send (s\<lparr>special_events := es\<rparr>)
                (XCB_PRESENT_PIXMAP (window c3) (pixmap img) (serial img) (update_area img)
                   (sync_fence img) opts msc)"
      define res where
        "res = (if fst (xcb_request_check s2) then VK_ERROR_SURFACE_LOST_KHR else VK_SUCCESS)"
      have e: "c' = snd (x11_swapchain_result c3 res)" "s' = snd (xcb_request_check s2)"
        unfolding res_def s2_def opts_def o1_def c3_def img_def
        using assms i \<open>wsi_conn s = Some conn\<close> p None
        by (simp_all add: x11_present_to_x11_dri3_def Let_def split_def split del: if_split)
      have e3: "requests s2 = requests s @
                [XCB_PRESENT_PIXMAP (window c3) (pixmap img) (serial img) (update_area img)
                   (sync_fence img) opts msc]"
        by (simp add: s2_def xcb_send_def)
      have i1: "unat i < length (images c1)" using i inv by simp
      have im: "images c' = (images c1)[unat i := img]"
        using e(1) by (simp add: result_images c3_def)
      have sb: "send_sbc c' = send_sbc c + 1"
        using e(1) inv by (simp add: result_send_sbc c3_def)
      have "map update_area (images c') = map update_area (images c1)"
        using im i1 by (simp add: map_update img_def list_update_same_conv)
      then have ua: "map update_area (images c') = map update_area (images c)"
        using inv by simp
      have sl: "serial (images c' ! unat i) = ucast (send_sbc c + 1)"
        "present_queued (images c' ! unat i)" "unat i < length (images c')"
        using im i1 inv by (simp_all add: img_def)
      have rq: "requests s' = requests s @
                [XCB_PRESENT_PIXMAP (window c3) (pixmap img) (ucast (send_sbc c + 1))
                   (update_area img) (sync_fence img) opts msc]"
        using e(2) e3 inv by (simp add: request_check_requests img_def)
      show ?thesis using sb ua sl rq by blast
    qed
  qed
qed

lemma idle_loop_status: "status (idle_notify_loop c p i) = status c"
proof (induction c p i rule: idle_notify_loop.induct)
  case (1 chain idle_pixmap i)
  then show ?case by (subst idle_notify_loop.simps) simp
qed

lemma handle_status:
  "status (snd (x11_handle_dri3_present_event hm c ev)) = status c"
  by (cases ev) (simp_all add: x11_handle_dri3_present_event_def Let_def idle_loop_status)

lemma handle_result_nonneg: "0 \<le> fst (x11_handle_dri3_present_event hm c ev)"
  by (cases ev) (simp_all add: x11_handle_dri3_present_event_def Let_def vk_result_defs)

lemma result_nonneg:
  "0 \<le> status c \<Longrightarrow> 0 \<le> r \<Longrightarrow>
   0 \<le> fst (x11_swapchain_result c r) \<and> 0 \<le> status (snd (x11_swapchain_result c r))"
  by (simp add: x11_swapchain_result_def)

lemma poll_events_nonneg:
  "0 \<le> status c \<Longrightarrow> present_poll_events hm c es = (early, c', es') \<Longrightarrow>
   early = None \<and> 0 \<le> status c'"
proof (induction hm c es rule: present_poll_events.induct)
  case (1 hm chain)
  then show ?case by simp
next
  case (2 hm chain es)
  then show ?case by simp
next
  case (3 hm chain event es)
  obtain r1 c1 where h: "x11_handle_dri3_present_event hm chain event = (r1, c1)"
    by (cases "x11_handle_dri3_present_event hm chain event")
  obtain r2 c2 where m: "x11_swapchain_result c1 r1 = (r2, c2)"
    by (cases "x11_swapchain_result c1 r1")
  have "0 \<le> status c1" "0 \<le> r1"
    using handle_status [of hm chain event] handle_result_nonneg [of hm chain event] h "3.prems"(1)
    by simp_all
  then have n: "0 \<le> r2" "0 \<le> status c2"
    using result_nonneg [of c1 r1] m by simp_all
  then have "present_poll_events hm c2 es = (early, c', es')"
    using "3.prems"(2) h m by simp
  then show ?case
    using "3.IH" [OF h [symmetric] refl m [symmetric] refl _ n(2)] n(1) by simp
qed

lemma poll_events_negative:
  "status c < 0 \<Longrightarrow>
   \<exists>c'. present_poll_events hm c (Some ev # es) = (Some (status c), c', es) \<and>
        send_sbc c' = send_sbc c \<and> status c' = status c"
proof -
  obtain r1 c1 where h: "x11_handle_dri3_present_event hm c ev = (r1, c1)"
    by (cases "x11_handle_dri3_present_event hm c ev")
  assume neg: "status c < 0"
  have c1: "status c1 = status c" "send_sbc c1 = send_sbc c"
    using handle_status [of hm c ev] handle_send_sbc [of hm c ev] h by simp_all
  then have "x11_swapchain_result c1 r1 = (status c, c1)"
    using neg by (simp add: x11_swapchain_result_def)
  then show ?thesis using h c1 neg by simp
qed

lemma request_check_other:
  "request_checks (snd (xcb_request_check srv)) = tl (request_checks srv)"
  "wsi_conn (snd (xcb_request_check srv)) = wsi_conn srv"
  "fst (xcb_request_check (xcb_send (srv\<lparr>special_events := es\<rparr>) req)) =
     fst (xcb_request_check srv)"
  "request_checks (xcb_send (srv\<lparr>special_events := es\<rparr>) req) = request_checks srv"
  "wsi_conn (xcb_send (srv\<lparr>special_events := es\<rparr>) req) = wsi_conn srv"
  by (simp_all add: xcb_request_check_def xcb_send_def split: list.splits)

text \<open>A call on a chain that is not in an error state, with a connection entry and a valid
  index, always submits.\<close>

lemma present_submits:
  assumes "0 \<le> status c" and "wsi_conn s = Some conn" and "unat i < length (images c)"
  shows "\<exists>r c' s' w p u f opts.
           x11_present_to_x11_dri3 hm c i msc s = Inr (r, c', s') \<and>
           send_sbc c' = send_sbc c + 1 \<and>
           serial (images c' ! unat i) = ucast (send_sbc c + 1) \<and>
           present_queued (images c' ! unat i) \<and>
           requests s' = requests s @
             [XCB_PRESENT_PIXMAP w p (ucast (send_sbc c + 1)) u f opts msc] \<and>
           length (images c') = length (images c) \<and>
           wsi_conn s' = wsi_conn s \<and>
           request_checks s' = tl (request_checks s) \<and>
           (\<not> fst (xcb_request_check s) \<longrightarrow> 0 \<le> status c')"
proof -
  obtain early c1 es where p: "present_poll_events hm c (special_events s) = (early, c1, es)"
    by (cases "present_poll_events hm c (special_events s)")
  have e: "early = None" "0 \<le> status c1" using poll_events_nonneg [OF assms(1) p] by simp_all
  note inv = poll_events_inv [OF p]
  define img where
    "img = (images c1 ! unat i)\<lparr>present_queued := True, serial := ucast (send_sbc c1 + 1)\<rparr>"
  define c3 where
    "c3 = c1\<lparr>sent_image_count := sent_image_count c1 + 1, send_sbc := send_sbc c1 + 1,
              images := (images c1)[unat i := img]\<rparr>"
  define o1 where
    "o1 = (if present_mode c = VK_PRESENT_MODE_IMMEDIATE_KHR \<or>
              (present_mode c = VK_PRESENT_MODE_MAILBOX_KHR \<and> is_xwayland conn) \<or>
              present_mode c = VK_PRESENT_MODE_FIFO_RELAXED_KHR
           then XCB_PRESENT_OPTION_NONE OR XCB_PRESENT_OPTION_ASYNC
           else XCB_PRESENT_OPTION_NONE)"
  define opts where
    "opts = (if hm \<and> chain_has_dri3_modifiers c
             then o1 OR XCB_PRESENT_OPTION_SUBOPTIMAL else o1)"
  define req where
    "req = XCB_PRESENT_PIXMAP (window c3) (pixmap img) (serial img) (update_area img)
             (sync_fence img) opts msc"
  define s2 where "s2 = xcb_send (s\<lparr>special_events := es\<rparr>) req"
  define res where
    "res = (if fst (xcb_request_check s2) then VK_ERROR_SURFACE_LOST_KHR else VK_SUCCESS)"
  have run: "x11_present_to_x11_dri3 hm c i msc s =
          Inr (fst (x11_swapchain_result c3 res), snd (x11_swapchain_result c3 res),
               snd (xcb_request_check s2))"
    unfolding res_def s2_def req_def opts_def o1_def c3_def img_def
    using assms p e
    by (simp add: x11_present_to_x11_dri3_def Let_def split_def split del: if_split)
  have i1: "unat i < length (images c1)" using assms(3) inv by simp
  have im: "images (snd (x11_swapchain_result c3 res)) = (images c1)[unat i := img]"
    by (simp add: result_images c3_def)
  have sb: "send_sbc (snd (x11_swapchain_result c3 res)) = send_sbc c + 1"
    using inv by (simp add: result_send_sbc c3_def)
  have sl: "serial (images (snd (x11_swapchain_result c3 res)) ! unat i) = ucast (send_sbc c + 1)"
    "present_queued (images (snd (x11_swapchain_result c3 res)) ! unat i)"
    "length (images (snd (x11_swapchain_result c3 res))) = length (images c)"
    using im i1 inv by (simp_all add: img_def)
  have rq: "requests (snd (xcb_request_check s2)) = requests s @
              [XCB_PRESENT_PIXMAP (window c3) (pixmap img) (ucast (send_sbc c + 1))
                 (update_area img) (sync_fence img) opts msc]"
    using inv by (simp add: request_check_requests s2_def req_def xcb_send_def img_def)
  have ot: "wsi_conn (snd (xcb_request_check s2)) = wsi_conn s"
    "request_checks (snd (xcb_request_check s2)) = tl (request_checks s)"
    by (simp_all add: s2_def request_check_other)
  have st: "\<not> fst (xcb_request_check s) \<longrightarrow> 0 \<le> status (snd (x11_swapchain_result c3 res))"
    using e(2) by (simp add: res_def s2_def request_check_other x11_swapchain_result_def
        c3_def vk_result_defs)
  show ?thesis using run sb sl rq ot st by blast
qed

lemma present_submits_no_event:
  assumes "special_events s = [] \<or> hd (special_events s) = None"
    and "wsi_conn s = Some conn" and "unat i < length (images c)"
  shows "\<exists>r c' s' w p u f opts.
           x11_present_to_x11_dri3 hm c i msc s = Inr (r, c', s') \<and>
           send_sbc c' = send_sbc c + 1 \<and>
           serial (images c' ! unat i) = ucast (send_sbc c + 1) \<and>
           requests s' = requests s @
             [XCB_PRESENT_PIXMAP w p (ucast (send_sbc c + 1)) u f opts msc]"
proof -
  obtain ev where p: "present_poll_events hm c (special_events s) = (None, c, ev)"
    using assms(1) by (cases "special_events s") auto
  obtain r c' s' where run: "x11_present_to_x11_dri3 hm c i msc s = Inr (r, c', s')"
    using assms(2,3) p
    by (cases "x11_present_to_x11_dri3 hm c i msc s")
       (auto simp add: x11_present_to_x11_dri3_def Let_def split_def
          simp del: present_poll_events.simps)
  have rq: "requests s' \<noteq> requests s"
    using run assms(2,3) p
    by (auto simp add: x11_present_to_x11_dri3_def Let_def split_def xcb_send_def
          xcb_request_check_def
          simp del: present_poll_events.simps split: list.splits)
  from present_dri3_step [OF run] rq show ?thesis using run by blast
qed

lemma present_without_connection:
  "wsi_conn s = None \<Longrightarrow> unat i < length (images c) \<Longrightarrow>
   x11_present_to_x11_dri3 hm c i msc s = Inr (VK_ERROR_OUT_OF_HOST_MEMORY, c, s)"
  by (simp add: x11_present_to_x11_dri3_def)

lemma present_on_failed_chain:
  assumes "status c < 0" and "wsi_conn s = Some conn" and "unat i < length (images c)"
    and "special_events s = Some ev # es"
  shows "\<exists>c'. x11_present_to_x11_dri3 hm c i msc s =
                 Inr (status c, c', s\<lparr>special_events := es\<rparr>) \<and>
               send_sbc c' = send_sbc c"
proof -
  from poll_events_negative [OF assms(1), of hm ev es] obtain c1 where
    "present_poll_events hm c (Some ev # es) = (Some (status c), c1, es)"
    "send_sbc c1 = send_sbc c"
    by blast
  then show ?thesis
    using assms by (simp add: x11_present_to_x11_dri3_def Let_def del: present_poll_events.simps)
qed

lemma presented_serials_append:
  "presented_serials (xs @ ys) = presented_serials xs @ presented_serials ys"
  by (induction xs rule: presented_serials.induct) simp_all

lemma map_upt_Suc_shift: "map f [0..<Suc n] = f 0 # map (\<lambda>k. f (Suc k)) [0..<n]"
  by (simp add: upt_conv_Cons map_Suc_upt [symmetric] del: upt_Suc)

lemma present_sequence_serials:
  "x11_present_sequence hm c s calls = Inr (c', s') \<Longrightarrow>
   \<exists>new n. requests s' = requests s @ new \<and> n \<le> length calls \<and>
     send_sbc c' = send_sbc c + of_nat n \<and>
     presented_serials new = map (\<lambda>k. ucast (send_sbc c + 1 + of_nat k)) [0..<n]"
proof (induction calls arbitrary: c s)
  case Nil
  then show ?case by simp
next
  case (Cons call calls)
  from Cons.prems obtain r c1 s1 where
    step: "x11_present_to_x11_dri3 hm c (fst call) (snd call) s = Inr (r, c1, s1)" and
    rest: "x11_present_sequence hm c1 s1 calls = Inr (c', s')"
    by (auto split: sum.splits)
  from Cons.IH [OF rest] obtain new n where
    ih: "requests s' = requests s1 @ new" "n \<le> length calls"
      "send_sbc c' = send_sbc c1 + of_nat n"
      "presented_serials new = map (\<lambda>k. ucast (send_sbc c1 + 1 + of_nat k)) [0..<n]"
    by blast
  from present_dri3_step [OF step] show ?case
  proof (elim disjE conjE exE)
    assume a: "send_sbc c1 = send_sbc c" "requests s1 = requests s"
    have "requests s' = requests s @ new \<and> n \<le> length (call # calls) \<and>
     send_sbc c' = send_sbc c + of_nat n \<and>
     presented_serials new = map (\<lambda>k. ucast (send_sbc c + 1 + of_nat k)) [0..<n]"
      using a ih by simp
    then show ?thesis by blast
  next
    fix w p u f opts
    assume a: "send_sbc c1 = send_sbc c + 1"
      "requests s1 = requests s @
         [XCB_PRESENT_PIXMAP w p (ucast (send_sbc c + 1)) u f opts (snd call)]"
    let ?req = "XCB_PRESENT_PIXMAP w p (ucast (send_sbc c + 1)) u f opts (snd call)"
    have m: "presented_serials (?req # new) =
             map (\<lambda>k. ucast (send_sbc c + 1 + of_nat k)) [0..<Suc n]"
      unfolding map_upt_Suc_shift using ih(4) a(1) by (simp add: ac_simps)
    have "requests s' = requests s @ (?req # new) \<and> Suc n \<le> length (call # calls) \<and>
     send_sbc c' = send_sbc c + of_nat (Suc n) \<and>
     presented_serials (?req # new) = map (\<lambda>k. ucast (send_sbc c + 1 + of_nat k)) [0..<Suc n]"
      using a ih m by (simp add: add.assoc)
    then show ?thesis by blast
  qed
qed

lemma serial_unat:
  fixes sbc :: "64 word"
  assumes "unat sbc + Suc k < 2 ^ 32"
  shows "unat (ucast (sbc + 1 + of_nat k) :: 32 word) = unat sbc + 1 + k"
proof -
  have "unat (sbc + 1 + of_nat k) = (unat sbc + 1 + k) mod 2 ^ 64"
    by (simp add: unat_word_ariths unat_of_nat mod_simps)
  also have "\<dots> = unat sbc + 1 + k" using assms by simp
  finally have u: "unat (sbc + 1 + of_nat k) = unat sbc + 1 + k" .
  have "unat (ucast (sbc + 1 + of_nat k) :: 32 word) = unat (sbc + 1 + of_nat k) mod 2 ^ 32"
    by (simp add: unsigned_ucast_eq take_bit_eq_mod)
  then show ?thesis using u assms by simp
qed

lemma serials_strictly_sorted:
  fixes sbc :: "64 word"
  assumes "unat sbc + n < 2 ^ 32"
  shows "sorted_wrt (<) (map (\<lambda>k. ucast (sbc + 1 + of_nat k) :: 32 word) [0..<n])"
proof -
  have "\<And>i j. i < j \<Longrightarrow> j < n \<Longrightarrow>
      (ucast (sbc + 1 + of_nat i) :: 32 word) < ucast (sbc + 1 + of_nat j)"
  proof -
    fix i j :: nat assume ij: "i < j" "j < n"
    have "unat (ucast (sbc + 1 + of_nat i) :: 32 word) = unat sbc + 1 + i"
      using assms ij by (intro serial_unat) simp
    moreover have "unat (ucast (sbc + 1 + of_nat j) :: 32 word) = unat sbc + 1 + j"
      using assms ij by (intro serial_unat) simp
    ultimately show "(ucast (sbc + 1 + of_nat i) :: 32 word) < ucast (sbc + 1 + of_nat j)"
      using ij by (simp add: word_less_nat_alt)
  qed
  then show ?thesis by (simp add: sorted_wrt_iff_nth_less)
qed

lemma present_sequence_all_submit:
  "0 \<le> status c \<Longrightarrow> wsi_conn s = Some conn \<Longrightarrow>
   \<forall>call\<in>set calls. unat (fst call) < length (images c) \<Longrightarrow>
   \<forall>b\<in>set (request_checks s). \<not> b \<Longrightarrow>
   \<exists>c' s' new. x11_present_sequence hm c s calls = Inr (c', s') \<and>
     requests s' = requests s @ new \<and>
     send_sbc c' = send_sbc c + of_nat (length calls) \<and>
     presented_serials new =
       map (\<lambda>k. ucast (send_sbc c + 1 + of_nat k)) [0..<length calls]"
proof (induction calls arbitrary: c s)
  case Nil
  then show ?case by simp
next
  case (Cons call calls)
  have ir: "unat (fst call) < length (images c)" using Cons.prems(3) by simp
  from present_submits [OF Cons.prems(1,2) ir, of hm "snd call"]
  obtain r c1 s1 w p u f opts where
    step: "x11_present_to_x11_dri3 hm c (fst call) (snd call) s = Inr (r, c1, s1)" and
    a: "send_sbc c1 = send_sbc c + 1"
       "requests s1 = requests s @
          [XCB_PRESENT_PIXMAP w p (ucast (send_sbc c + 1)) u f opts (snd call)]"
       "length (images c1) = length (images c)" "wsi_conn s1 = wsi_conn s"
       "request_checks s1 = tl (request_checks s)"
       "\<not> fst (xcb_request_check s) \<longrightarrow> 0 \<le> status c1"
    by blast
  have noerr: "\<not> fst (xcb_request_check s)"
    using Cons.prems(4) by (cases "request_checks s") (simp_all add: xcb_request_check_def)
  have p1: "0 \<le> status c1" using a(6) noerr by simp
  have p2: "wsi_conn s1 = Some conn" using a(4) Cons.prems(2) by simp
  have p3: "\<forall>call\<in>set calls. unat (fst call) < length (images c1)"
    using Cons.prems(3) a(3) by simp
  have p4: "\<forall>b\<in>set (request_checks s1). \<not> b"
    using Cons.prems(4) a(5) by (cases "request_checks s") auto
  from Cons.IH [OF p1 p2 p3 p4] obtain c' s' new where
    ih: "x11_present_sequence hm c1 s1 calls = Inr (c', s')"
      "requests s' = requests s1 @ new"
      "send_sbc c' = send_sbc c1 + of_nat (length calls)"
      "presented_serials new =
         map (\<lambda>k. ucast (send_sbc c1 + 1 + of_nat k)) [0..<length calls]"
    by blast
  let ?req = "XCB_PRESENT_PIXMAP w p (ucast (send_sbc c + 1)) u f opts (snd call)"
  have m: "presented_serials (?req # new) =
           map (\<lambda>k. ucast (send_sbc c + 1 + of_nat k)) [0..<Suc (length calls)]"
    unfolding map_upt_Suc_shift using ih(4) a(1) by (simp add: ac_simps)
  have "x11_present_sequence hm c s (call # calls) = Inr (c', s') \<and>
     requests s' = requests s @ (?req # new) \<and>
     send_sbc c' = send_sbc c + of_nat (length (call # calls)) \<and>
     presented_serials (?req # new) =
       map (\<lambda>k. ucast (send_sbc c + 1 + of_nat k)) [0..<length (call # calls)]"
    using step ih a m by (simp add: add.assoc)
  then show ?case by blast
qed

text \<open>
  C7 (as amended). A call of the hardware present primitive with a connection entry and
  a valid image index, on a chain that is not in an error state or that finds no event
  pending, always returns and submits: it increments the 64-bit \<open>send_sbc\<close> by exactly
  one, stores the new value truncated to 32 bits as the serial of the image and sends it
  as the serial of the request. The other calls, one without a connection entry and one
  on a failed chain that finds an event pending, return without touching the counter.
  So over any run of the primitive
  the counter advances by the number \<open>n\<close> of submissions and their serials are
  \<open>send_sbc + 1, \<dots>, send_sbc + n\<close> truncated to 32 bits, in submission order; when
  the chain starts outside an error state and no request fails, every call of the run
  submits. As long as the counter stays below \<open>2^32\<close> the serials are strictly
  increasing and distinct.
\<close>

theorem present_serials_increasing:
  "((0 \<le> status c \<or> special_events s = [] \<or> hd (special_events s) = None) \<and>
    wsi_conn s = Some conn \<and> unat i < length (images c) \<longrightarrow>
      (\<exists>r c' s' w p u f opts.
         x11_present_to_x11_dri3 hm c i msc s = Inr (r, c', s') \<and>
         send_sbc c' = send_sbc c + 1 \<and>
         serial (images c' ! unat i) = ucast (send_sbc c + 1) \<and>
         requests s' = requests s @
           [XCB_PRESENT_PIXMAP w p (ucast (send_sbc c + 1)) u f opts msc])) \<and>
   (wsi_conn s = None \<and> unat i < length (images c) \<longrightarrow>
      x11_present_to_x11_dri3 hm c i msc s = Inr (VK_ERROR_OUT_OF_HOST_MEMORY, c, s)) \<and>
   (status c < 0 \<and> wsi_conn s = Some conn \<and> unat i < length (images c) \<and>
    special_events s = Some ev # es \<longrightarrow>
      (\<exists>c'. x11_present_to_x11_dri3 hm c i msc s =
               Inr (status c, c', s\<lparr>special_events := es\<rparr>) \<and>
            send_sbc c' = send_sbc c)) \<and>
   (\<forall>c' s'. x11_present_sequence hm c s calls = Inr (c', s') \<longrightarrow>
      (\<exists>new n. requests s' = requests s @ new \<and> n \<le> length calls \<and>
         send_sbc c' = send_sbc c + of_nat n \<and>
         presented_serials new = map (\<lambda>k. ucast (send_sbc c + 1 + of_nat k)) [0..<n] \<and>
         (unat (send_sbc c) + n < 2 ^ 32 \<longrightarrow>
            sorted_wrt (<) (presented_serials new) \<and> distinct (presented_serials new)))) \<and>
   (0 \<le> status c \<and> wsi_conn s = Some conn \<and>
    (\<forall>call\<in>set calls. unat (fst call) < length (images c)) \<and>
    (\<forall>b\<in>set (request_checks s). \<not> b) \<longrightarrow>
      (\<exists>c' s' new. x11_present_sequence hm c s calls = Inr (c', s') \<and>
         requests s' = requests s @ new \<and>
         send_sbc c' = send_sbc c + of_nat (length calls) \<and>
         presented_serials new =
           map (\<lambda>k. ucast (send_sbc c + 1 + of_nat k)) [0..<length calls] \<and>
         (unat (send_sbc c) + length calls < 2 ^ 32 \<longrightarrow>
            sorted_wrt (<) (presented_serials new) \<and> distinct (presented_serials new))))"
proof (intro conjI impI allI)
  assume a: "(0 \<le> status c \<or> special_events s = [] \<or> hd (special_events s) = None) \<and>
    wsi_conn s = Some conn \<and> unat i < length (images c)"
  then have cn: "wsi_conn s = Some conn" and i: "unat i < length (images c)"
    by simp_all
  show "\<exists>r c' s' w p u f opts.
         x11_present_to_x11_dri3 hm c i msc s = Inr (r, c', s') \<and>
         send_sbc c' = send_sbc c + 1 \<and>
         serial (images c' ! unat i) = ucast (send_sbc c + 1) \<and>
         requests s' = requests s @
           [XCB_PRESENT_PIXMAP w p (ucast (send_sbc c + 1)) u f opts msc]"
  proof (cases "0 \<le> status c")
    case True
    from present_submits [OF True cn i, of hm msc] show ?thesis by blast
  next
    case False
    then have "special_events s = [] \<or> hd (special_events s) = None"
      using a by simp
    then show ?thesis using cn i by (rule present_submits_no_event)
  qed
next
  assume "wsi_conn s = None \<and> unat i < length (images c)"
  then show "x11_present_to_x11_dri3 hm c i msc s = Inr (VK_ERROR_OUT_OF_HOST_MEMORY, c, s)"
    by (simp add: present_without_connection)
next
  assume "status c < 0 \<and> wsi_conn s = Some conn \<and> unat i < length (images c) \<and>
    special_events s = Some ev # es"
  then have "status c < 0" "wsi_conn s = Some conn" "unat i < length (images c)"
    "special_events s = Some ev # es"
    by simp_all
  then show "\<exists>c'. x11_present_to_x11_dri3 hm c i msc s =
               Inr (status c, c', s\<lparr>special_events := es\<rparr>) \<and>
            send_sbc c' = send_sbc c"
    by (rule present_on_failed_chain)
next
  fix c' s'
  assume run: "x11_present_sequence hm c s calls = Inr (c', s')"
  from present_sequence_serials [OF run] obtain new n where
    h: "requests s' = requests s @ new" "n \<le> length calls"
      "send_sbc c' = send_sbc c + of_nat n"
      "presented_serials new = map (\<lambda>k. ucast (send_sbc c + 1 + of_nat k)) [0..<n]"
    by blast
  have "unat (send_sbc c) + n < 2 ^ 32 \<longrightarrow>
        sorted_wrt (<) (presented_serials new) \<and> distinct (presented_serials new)"
    using serials_strictly_sorted [of "send_sbc c" n] h(4)
    by (simp add: strict_sorted_iff)
  with h show "\<exists>new n. requests s' = requests s @ new \<and> n \<le> length calls \<and>
         send_sbc c' = send_sbc c + of_nat n \<and>
         presented_serials new = map (\<lambda>k. ucast (send_sbc c + 1 + of_nat k)) [0..<n] \<and>
         (unat (send_sbc c) + n < 2 ^ 32 \<longrightarrow>
            sorted_wrt (<) (presented_serials new) \<and> distinct (presented_serials new))"
    by blast
next
  assume "0 \<le> status c \<and> wsi_conn s = Some conn \<and>
    (\<forall>call\<in>set calls. unat (fst call) < length (images c)) \<and>
    (\<forall>b\<in>set (request_checks s). \<not> b)"
  then have "0 \<le> status c" "wsi_conn s = Some conn"
    "\<forall>call\<in>set calls. unat (fst call) < length (images c)"
    "\<forall>b\<in>set (request_checks s). \<not> b"
    by blast+
  from present_sequence_all_submit [OF this, of hm] obtain c' s' new where
    h: "x11_present_sequence hm c s calls = Inr (c', s')"
      "requests s' = requests s @ new"
      "send_sbc c' = send_sbc c + of_nat (length calls)"
      "presented_serials new =
         map (\<lambda>k. ucast (send_sbc c + 1 + of_nat k)) [0..<length calls]"
    by blast
  have "unat (send_sbc c) + length calls < 2 ^ 32 \<longrightarrow>
        sorted_wrt (<) (presented_serials new) \<and> distinct (presented_serials new)"
    using serials_strictly_sorted [of "send_sbc c" "length calls"] h(4)
    by (simp add: strict_sorted_iff)
  with h show "\<exists>c' s' new. x11_present_sequence hm c s calls = Inr (c', s') \<and>
         requests s' = requests s @ new \<and>
         send_sbc c' = send_sbc c + of_nat (length calls) \<and>
         presented_serials new =
           map (\<lambda>k. ucast (send_sbc c + 1 + of_nat k)) [0..<length calls] \<and>
         (unat (send_sbc c) + length calls < 2 ^ 32 \<longrightarrow>
            sorted_wrt (<) (presented_serials new) \<and> distinct (presented_serials new))"
    by blast
qed

theorem present_serials_increasing_witness:
  "x11_present_sequence False chain0 xserver0 [(0, 0), (1, 0)] =
     Inr (chain0\<lparr>send_sbc := 2, sent_image_count := 2,
            images := [(image0 0)\<lparr>present_queued := True, serial := 1\<rparr>,
                       (image0 1)\<lparr>present_queued := True, serial := 2\<rparr>]\<rparr>,
          xserver0\<lparr>requests := [XCB_PRESENT_PIXMAP 1 16 1 0 48 1 0,
                                 XCB_PRESENT_PIXMAP 1 17 2 0 49 1 0]\<rparr>) \<and>
   (\<exists>c' s' new.
      x11_present_sequence False chain0 xserver0 [(0, 0), (1, 0)] = Inr (c', s') \<and>
      requests s' = requests xserver0 @ new \<and>
      send_sbc c' = send_sbc chain0 + of_nat (length [(0 :: 32 word, 0 :: 64 word), (1, 0)]) \<and>
      presented_serials new =
        map (\<lambda>k. ucast (send_sbc chain0 + 1 + of_nat k))
          [0..<length [(0 :: 32 word, 0 :: 64 word), (1, 0)]] \<and>
      (unat (send_sbc chain0) + length [(0 :: 32 word, 0 :: 64 word), (1, 0)] < 2 ^ 32 \<longrightarrow>
         sorted_wrt (<) (presented_serials new) \<and> distinct (presented_serials new))) \<and>
   x11_present_to_x11_dri3 False chain0 0 0 (xserver0\<lparr>wsi_conn := None\<rparr>) =
     Inr (VK_ERROR_OUT_OF_HOST_MEMORY, chain0, xserver0\<lparr>wsi_conn := None\<rparr>) \<and>
   (\<exists>c'. x11_present_to_x11_dri3 False (chain0\<lparr>status := VK_ERROR_OUT_OF_DATE_KHR\<rparr>) 0 0
           (xserver0\<lparr>special_events := [Some XCB_PRESENT_OTHER]\<rparr>) =
           Inr (VK_ERROR_OUT_OF_DATE_KHR, c', xserver0\<lparr>special_events := []\<rparr>) \<and>
         send_sbc c' = 0) \<and>
   (\<exists>r c' s' w p u f opts.
      x11_present_to_x11_dri3 False (chain0\<lparr>send_sbc := 7\<rparr>) 1 0 xserver0 =
        Inr (r, c', s') \<and>
      send_sbc c' = 8 \<and> serial (images c' ! 1) = 8 \<and>
      requests s' = [XCB_PRESENT_PIXMAP w p 8 u f opts 0])"
proof (intro conjI)
  have h1: "(0 \<le> status (chain0\<lparr>send_sbc := 7\<rparr>) \<or> special_events xserver0 = [] \<or>
      hd (special_events xserver0) = None) \<and>
    wsi_conn xserver0 = Some connection0 \<and>
    unat (1 :: 32 word) < length (images (chain0\<lparr>send_sbc := 7\<rparr>))"
    by (simp add: chain0_def xserver0_def vk_result_defs)
  from present_serials_increasing [where c = "chain0\<lparr>send_sbc := 7\<rparr>" and s = xserver0
      and conn = connection0 and i = 1 and hm = False and msc = 0,
      THEN conjunct1, THEN mp, OF h1]
  show "\<exists>r c' s' w p u f opts.
      x11_present_to_x11_dri3 False (chain0\<lparr>send_sbc := 7\<rparr>) 1 0 xserver0 =
        Inr (r, c', s') \<and>
      send_sbc c' = 8 \<and> serial (images c' ! 1) = 8 \<and>
      requests s' = [XCB_PRESENT_PIXMAP w p 8 u f opts 0]"
    by (simp add: xserver0_def)
next
  have h2: "wsi_conn (xserver0\<lparr>wsi_conn := None\<rparr>) = None \<and>
    unat (0 :: 32 word) < length (images chain0)"
    by (simp add: chain0_def)
  from present_serials_increasing [where c = chain0 and s = "xserver0\<lparr>wsi_conn := None\<rparr>"
      and i = 0 and hm = False and msc = 0,
      THEN conjunct2, THEN conjunct1, THEN mp, OF h2]
  show "x11_present_to_x11_dri3 False chain0 0 0 (xserver0\<lparr>wsi_conn := None\<rparr>) =
     Inr (VK_ERROR_OUT_OF_HOST_MEMORY, chain0, xserver0\<lparr>wsi_conn := None\<rparr>)" .
next
  let ?c = "chain0\<lparr>status := VK_ERROR_OUT_OF_DATE_KHR\<rparr>"
  let ?s = "xserver0\<lparr>special_events := [Some XCB_PRESENT_OTHER]\<rparr>"
  have h3: "status ?c < 0 \<and> wsi_conn ?s = Some connection0 \<and>
    unat (0 :: 32 word) < length (images ?c) \<and>
    special_events ?s = Some XCB_PRESENT_OTHER # []"
    by (simp add: chain0_def xserver0_def vk_result_defs)
  from present_serials_increasing [where c = ?c and s = ?s and conn = connection0
      and i = 0 and hm = False and msc = 0 and ev = XCB_PRESENT_OTHER and es = "[]",
      THEN conjunct2, THEN conjunct2, THEN conjunct1, THEN mp, OF h3]
  show "\<exists>c'. x11_present_to_x11_dri3 False ?c 0 0 ?s =
           Inr (VK_ERROR_OUT_OF_DATE_KHR, c', xserver0\<lparr>special_events := []\<rparr>) \<and>
         send_sbc c' = 0"
    by (simp add: chain0_def)
next
  show "x11_present_sequence False chain0 xserver0 [(0, 0), (1, 0)] =
     Inr (chain0\<lparr>send_sbc := 2, sent_image_count := 2,
            images := [(image0 0)\<lparr>present_queued := True, serial := 1\<rparr>,
                       (image0 1)\<lparr>present_queued := True, serial := 2\<rparr>]\<rparr>,
          xserver0\<lparr>requests := [XCB_PRESENT_PIXMAP 1 16 1 0 48 1 0,
                                 XCB_PRESENT_PIXMAP 1 17 2 0 49 1 0]\<rparr>)"
    by (simp add: x11_present_to_x11_dri3_def chain0_def xserver0_def connection0_def image0_def
      device0_def xcb_send_def xcb_request_check_def x11_swapchain_result_def vk_result_defs
      XCB_PRESENT_OPTION_NONE_def XCB_PRESENT_OPTION_ASYNC_def Let_def)
  have h: "0 \<le> status chain0 \<and> wsi_conn xserver0 = Some connection0 \<and>
    (\<forall>call\<in>set [(0 :: 32 word, 0 :: 64 word), (1, 0)].
        unat (fst call) < length (images chain0)) \<and>
    (\<forall>b\<in>set (request_checks xserver0). \<not> b)"
    by (simp add: chain0_def xserver0_def vk_result_defs)
  from present_serials_increasing [where c = chain0 and s = xserver0 and conn = connection0
      and calls = "[(0, 0), (1, 0)]" and hm = False,
      THEN conjunct2, THEN conjunct2, THEN conjunct2, THEN conjunct2, THEN mp, OF h]
  show "\<exists>c' s' new.
      x11_present_sequence False chain0 xserver0 [(0, 0), (1, 0)] = Inr (c', s') \<and>
      requests s' = requests xserver0 @ new \<and>
      send_sbc c' = send_sbc chain0 + of_nat (length [(0 :: 32 word, 0 :: 64 word), (1, 0)]) \<and>
      presented_serials new =
        map (\<lambda>k. ucast (send_sbc chain0 + 1 + of_nat k))
          [0..<length [(0 :: 32 word, 0 :: 64 word), (1, 0)]] \<and>
      (unat (send_sbc chain0) + length [(0 :: 32 word, 0 :: 64 word), (1, 0)] < 2 ^ 32 \<longrightarrow>
         sorted_wrt (<) (presented_serials new) \<and> distinct (presented_serials new))" .
qed

text \<open>C7 in its first wording (serials increase over every sequence) fails: on a chain
  that has presented \<open>2^32 - 2\<close> times, the next two presents take the counter to
  \<open>2^32\<close> and carry the serials \<open>0xFFFFFFFF\<close> and \<open>0\<close>, which are not increasing.\<close>

theorem present_serial_wraps:
  "(case x11_present_sequence False (chain0\<lparr>send_sbc := 0xFFFFFFFE\<rparr>) xserver0
           [(0, 0), (1, 0)] of
      Inl f \<Rightarrow> False
    | Inr (c', s') \<Rightarrow>
        send_sbc c' = 0x100000000 \<and>
        presented_serials (requests s') = [0xFFFFFFFF, 0] \<and>
        \<not> sorted_wrt (<) (presented_serials (requests s')))"
  by code_simp

subsection \<open>Probing a connection\<close>

text \<open>
  C5 (as amended). The factory returns none exactly when the entry cannot be allocated
  or the reply to the DRI3, the Present or the XFIXES extension query is missing (a null
  reply). An extension that the server reports absent in a reply that did arrive does
  not reject the connection: whenever the allocation succeeds, the three replies arrive
  and no reply that the code goes on to dereference is null (the XFIXES version reply
  when XFIXES is present; the MIT-SHM extension and version replies when DRI3 and
  Present are present and the driver wants SHM), an entry is returned, and every entry
  returned records in \<open>has_dri3\<close> and \<open>has_present\<close> whether the server reported the
  extension present, with \<open>has_xfixes\<close> set only if XFIXES was reported present. In the
  remaining case the call dereferences a null reply, which is a fault and not a result.
\<close>

theorem connection_create_none_iff:
  "(wsi_x11_connection_create hm noshm wsi_dev probe = Inr None \<longleftrightarrow>
      \<not> alloc_ok probe \<or> dri3_reply probe = None \<or> pres_reply probe = None \<or>
      xfixes_reply probe = None) \<and>
   (\<forall>e. wsi_x11_connection_create hm noshm wsi_dev probe = Inr (Some e) \<longrightarrow>
      (has_dri3 e \<longleftrightarrow> dri3_reply probe = Some True) \<and>
      (has_present e \<longleftrightarrow> pres_reply probe = Some True) \<and>
      (has_xfixes e \<longrightarrow> xfixes_reply probe = Some True)) \<and>
   (alloc_ok probe \<and> dri3_reply probe = Some d \<and> pres_reply probe = Some p \<and>
    xfixes_reply probe = Some x \<and>
    (x \<longrightarrow> xfixes_version probe \<noteq> None) \<and>
    (d \<and> p \<and> sw wsi_dev \<and> \<not> noshm \<and> has_import_memory_host wsi_dev \<longrightarrow>
       shm_reply probe \<noteq> None \<and> shm_shared_pixmaps probe \<noteq> None) \<longrightarrow>
      (\<exists>e. wsi_x11_connection_create hm noshm wsi_dev probe = Inr (Some e) \<and>
           has_dri3 e = d \<and> has_present e = p \<and> (has_xfixes e \<longrightarrow> x) \<and>
           is_xwayland e = wsi_x11_detect_xwayland probe)) \<and>
   (alloc_ok probe \<and> dri3_reply probe = Some d \<and> pres_reply probe = Some p \<and>
    xfixes_reply probe = Some x \<and>
    \<not> ((x \<longrightarrow> xfixes_version probe \<noteq> None) \<and>
       (d \<and> p \<and> sw wsi_dev \<and> \<not> noshm \<and> has_import_memory_host wsi_dev \<longrightarrow>
          shm_reply probe \<noteq> None \<and> shm_shared_pixmaps probe \<noteq> None)) \<longrightarrow>
      wsi_x11_connection_create hm noshm wsi_dev probe = Inl NullDereference)"
proof (cases "alloc_ok probe")
  case False
  then show ?thesis by (simp add: wsi_x11_connection_create_def)
next
  case ok: True
  show ?thesis
  proof (cases "dri3_reply probe")
    case None
    then show ?thesis using ok by (simp add: wsi_x11_connection_create_def)
  next
    case dr: (Some dri3)
    show ?thesis
    proof (cases "pres_reply probe")
      case None
      then show ?thesis using ok dr by (simp add: wsi_x11_connection_create_def)
    next
      case pr: (Some pres)
      show ?thesis
      proof (cases "xfixes_reply probe")
        case None
        then show ?thesis using ok dr pr by (simp add: wsi_x11_connection_create_def)
      next
        case xr: (Some xfixes)
        show ?thesis using ok dr pr xr
          by (auto simp add: wsi_x11_connection_create_def Let_def
                split: option.splits sum.splits if_splits)
      qed
    qed
  qed
qed

theorem connection_create_none_iff_witness:
  "wsi_x11_connection_create True False device0 (probe0\<lparr>xfixes_reply := None\<rparr>) = Inr None \<and>
   wsi_x11_connection_create True False device0 probe0 =
     Inr (Some \<lparr>has_dri3 = True, has_dri3_modifiers = True, has_present = True,
                is_proprietary_x11 = False, is_xwayland = False, has_mit_shm = False,
                has_xfixes = True\<rparr>) \<and>
   dri3_reply probe0 = Some True \<and> pres_reply probe0 = Some True \<and>
   xfixes_reply probe0 = Some True \<and>
   (\<exists>e. wsi_x11_connection_create True False device0 (probe0\<lparr>dri3_reply := Some False\<rparr>) =
           Inr (Some e) \<and>
        has_dri3 e = False \<and> has_present e = True \<and> (has_xfixes e \<longrightarrow> True) \<and>
        is_xwayland e = wsi_x11_detect_xwayland (probe0\<lparr>dri3_reply := Some False\<rparr>)) \<and>
   wsi_x11_connection_create True False device0 (probe0\<lparr>xfixes_version := None\<rparr>) =
     Inl NullDereference"
proof -
  have e: "wsi_x11_connection_create True False device0 probe0 =
     Inr (Some \<lparr>has_dri3 = True, has_dri3_modifiers = True, has_present = True,
                is_proprietary_x11 = False, is_xwayland = False, has_mit_shm = False,
                has_xfixes = True\<rparr>)"
    by (simp add: wsi_x11_connection_create_def probe0_def device0_def
          wsi_x11_detect_xwayland_def)
  have n: "xfixes_reply (probe0\<lparr>xfixes_reply := None\<rparr>) = None" by simp
  have h: "alloc_ok (probe0\<lparr>dri3_reply := Some False\<rparr>) \<and>
    dri3_reply (probe0\<lparr>dri3_reply := Some False\<rparr>) = Some False \<and>
    pres_reply (probe0\<lparr>dri3_reply := Some False\<rparr>) = Some True \<and>
    xfixes_reply (probe0\<lparr>dri3_reply := Some False\<rparr>) = Some True \<and>
    (True \<longrightarrow> xfixes_version (probe0\<lparr>dri3_reply := Some False\<rparr>) \<noteq> None) \<and>
    (False \<and> True \<and> sw device0 \<and> \<not> False \<and> has_import_memory_host device0 \<longrightarrow>
       shm_reply (probe0\<lparr>dri3_reply := Some False\<rparr>) \<noteq> None \<and>
       shm_shared_pixmaps (probe0\<lparr>dri3_reply := Some False\<rparr>) \<noteq> None)"
    by (simp add: probe0_def)
  have g: "alloc_ok (probe0\<lparr>xfixes_version := None\<rparr>) \<and>
    dri3_reply (probe0\<lparr>xfixes_version := None\<rparr>) = Some True \<and>
    pres_reply (probe0\<lparr>xfixes_version := None\<rparr>) = Some True \<and>
    xfixes_reply (probe0\<lparr>xfixes_version := None\<rparr>) = Some True \<and>
    \<not> ((True \<longrightarrow> xfixes_version (probe0\<lparr>xfixes_version := None\<rparr>) \<noteq> None) \<and>
       (True \<and> True \<and> sw device0 \<and> \<not> False \<and> has_import_memory_host device0 \<longrightarrow>
          shm_reply (probe0\<lparr>xfixes_version := None\<rparr>) \<noteq> None \<and>
          shm_shared_pixmaps (probe0\<lparr>xfixes_version := None\<rparr>) \<noteq> None))"
    by (simp add: probe0_def)
  have p: "\<exists>e. wsi_x11_connection_create True False device0 (probe0\<lparr>dri3_reply := Some False\<rparr>) =
           Inr (Some e) \<and>
        has_dri3 e = False \<and> has_present e = True \<and> (has_xfixes e \<longrightarrow> True) \<and>
        is_xwayland e = wsi_x11_detect_xwayland (probe0\<lparr>dri3_reply := Some False\<rparr>)"
    using connection_create_none_iff [where hm = True and noshm = False and wsi_dev = device0
        and probe = "probe0\<lparr>dri3_reply := Some False\<rparr>" and d = False and p = True
        and x = True, THEN conjunct2, THEN conjunct2, THEN conjunct1, THEN mp, OF h] .
  have f: "wsi_x11_connection_create True False device0 (probe0\<lparr>xfixes_version := None\<rparr>) =
     Inl NullDereference"
    using connection_create_none_iff [where hm = True and noshm = False and wsi_dev = device0
        and probe = "probe0\<lparr>xfixes_version := None\<rparr>" and d = True and p = True
        and x = True, THEN conjunct2, THEN conjunct2, THEN conjunct2, THEN mp, OF g] .
  have a: "wsi_x11_connection_create True False device0 (probe0\<lparr>xfixes_reply := None\<rparr>) = Inr None"
    using connection_create_none_iff [of True False device0 "probe0\<lparr>xfixes_reply := None\<rparr>"] n
    by blast
  have b: "dri3_reply probe0 = Some True \<and> pres_reply probe0 = Some True \<and>
     xfixes_reply probe0 = Some True"
    by (simp add: probe0_def)
  show ?thesis using a e b p f by blast
qed

text \<open>C5 in its first wording (an absent extension yields none) fails: a server that
  answers the DRI3 query with "not present" still gets an entry, with \<open>has_dri3\<close>
  false.\<close>

theorem connection_create_absent_dri3:
  "wsi_x11_connection_create True False device0 (probe0\<lparr>dri3_reply := Some False\<rparr>) =
     Inr (Some \<lparr>has_dri3 = False, has_dri3_modifiers = False, has_present = True,
                is_proprietary_x11 = False, is_xwayland = False, has_mit_shm = False,
                has_xfixes = True\<rparr>) \<and>
   wsi_x11_connection_create True False device0 (probe0\<lparr>dri3_reply := Some False\<rparr>) \<noteq> Inr None"
  by (simp add: wsi_x11_connection_create_def probe0_def device0_def wsi_x11_detect_xwayland_def)

subsection \<open>Damage\<close>

lemma set_region_requests_append:
  "set_region_requests (xs @ ys) = set_region_requests xs @ set_region_requests ys"
  by (induction xs rule: set_region_requests.induct) simp_all

lemma present_dri3_no_region:
  assumes "x11_present_to_x11_dri3 hm c i msc s = Inr (r, c', s')"
  shows "map update_area (images c') = map update_area (images c) \<and>
         set_region_requests (requests s') = set_region_requests (requests s)"
  using present_dri3_step [OF assms] by (auto simp add: set_region_requests_append)

lemma put_image_no_region:
  "set_region_requests (requests (fold (\<lambda>(y_start, this_lines) s.
       xcb_send s (XCB_PUT_IMAGE w g wd (fh this_lines) (fy y_start)
                     (fl this_lines) (fo y_start))) bands s)) =
   set_region_requests (requests s)"
  by (induction bands arbitrary: s)
     (simp_all add: xcb_send_def set_region_requests_append split_def)

lemma present_sw_no_region:
  assumes "x11_present_to_x11_sw c i msc s = Inr (r, c', s')"
  shows "map update_area (images c') = map update_area (images c) \<and>
         set_region_requests (requests s') = set_region_requests (requests s)"
proof -
  from assms have i: "unat i < length (images c)"
    by (simp add: x11_present_to_x11_sw_def split: if_splits)
  define put where "put = (\<lambda>(y_start :: 32 word, this_lines :: 32 word) s.
                     xcb_send s (XCB_PUT_IMAGE (window c) (gc c)
                       (ucast (row_pitch (images c ! unat i) div 4)) (ucast this_lines)
                       (ucast y_start)
                       (this_lines * row_pitch (images c ! unat i))
                       (y_start * row_pitch (images c ! unat i))))"
  have pr: "\<And>bands s. set_region_requests (requests (fold put bands s)) =
                        set_region_requests (requests s)"
    unfolding put_def by (rule put_image_no_region)
  have p1: "\<And>b s. set_region_requests (requests (put b s)) = set_region_requests (requests s)"
    using pr [of "[b]" for b] by simp
  from assms i obtain s1 where
    s1: "s1 = put (0, height (extent c)) s \<or> (\<exists>bands. s1 = fold put bands s)" and
    res: "c' = snd (x11_swapchain_result
                (c\<lparr>images := (images c)[unat i := (images c ! unat i)\<lparr>busy := False\<rparr>]\<rparr>)
                VK_SUCCESS)" "s' = s1"
    unfolding put_def
    by (auto simp add: x11_present_to_x11_sw_def Let_def split_def
          split: if_splits option.splits sum.splits)
  have "set_region_requests (requests s1) = set_region_requests (requests s)"
    using s1 pr p1 by auto
  moreover have "map update_area (images c') = map update_area (images c)"
    using res(1) i by (simp add: result_images map_update list_update_same_conv)
  ultimately show ?thesis using res(2) by simp
qed

lemma present_to_x11_no_region:
  assumes "x11_present_to_x11 hm c i msc s = Inr (r, c', s')"
  shows "map update_area (images c') = map update_area (images c) \<and>
         set_region_requests (requests s') = set_region_requests (requests s)"
  using assms present_dri3_no_region [of hm c i msc s r c' s']
    present_sw_no_region [of c i msc s r c' s']
  by (simp add: x11_present_to_x11_def split: if_splits)

lemma damage_ignored:
  "rectangleCount d = 0 \<or> MAX_DAMAGE_RECTS < rectangleCount d \<Longrightarrow>
   x11_queue_present_damage chain i (Some d) srv = Inr (0, srv)"
  by (auto simp add: x11_queue_present_damage_def split: option.splits)

lemma no_damage: "x11_queue_present_damage chain i None srv = Inr (0, srv)"
  by (simp add: x11_queue_present_damage_def)

lemma queue_present_full_image:
  assumes "x11_queue_present hm chain i None srv = Inr (r, chain', srv')"
    and "0 \<le> status chain"
  shows "update_area (images chain' ! unat i) = 0 \<and>
         set_region_requests (requests srv') = set_region_requests (requests srv)"
proof -
  from assms have i: "unat i < length (images chain)"
    by (simp add: x11_queue_present_def split: if_splits)
  define c1 where
    "c1 = chain\<lparr>images := (images chain)[unat i :=
             (images chain ! unat i)\<lparr>update_area := 0, busy := True\<rparr>]\<rparr>"
  have u1: "map update_area (images c1) ! unat i = 0" "length (images c1) = length (images chain)"
    using i by (simp_all add: c1_def)
  show ?thesis
  proof (cases "has_present_queue chain")
    case True
    then have "chain' = c1\<lparr>present_queue := wsi_queue_push (present_queue c1) i\<rparr>" "srv' = srv"
      using assms i by (simp_all add: x11_queue_present_def no_damage Let_def c1_def)
    then show ?thesis using u1 i by (simp add: c1_def)
  next
    case False
    then have "x11_present_to_x11 hm c1 i 0 srv = Inr (r, chain', srv')"
      using assms i by (simp add: x11_queue_present_def no_damage Let_def c1_def)
    from present_to_x11_no_region [OF this]
    have m: "map update_area (images chain') = map update_area (images c1)"
      and rq: "set_region_requests (requests srv') = set_region_requests (requests srv)"
      by simp_all
    have "length (images chain') = length (images c1)"
      using m by (metis length_map)
    then have "update_area (images chain' ! unat i) = map update_area (images chain') ! unat i"
      using u1 i by simp
    then show ?thesis using m u1 rq by simp
  qed
qed

lemma queue_present_returns:
  assumes "0 \<le> status chain"
    and "unat i < length (images chain)"
    and "has_present_queue chain \<or>
         \<not> (sw (wsi chain) \<and> \<not> chain_has_mit_shm chain) \<and> wsi_conn srv = Some conn"
  shows "\<exists>r chain' srv'. x11_queue_present hm chain i None srv = Inr (r, chain', srv')"
proof (cases "has_present_queue chain")
  case True
  then show ?thesis using assms(1,2)
    by (simp add: x11_queue_present_def no_damage Let_def)
next
  case False
  define c1 where
    "c1 = chain\<lparr>images := (images chain)[unat i :=
             (images chain ! unat i)\<lparr>update_area := 0, busy := True\<rparr>]\<rparr>"
  have hw: "\<not> (sw (wsi chain) \<and> \<not> chain_has_mit_shm chain)" and cn: "wsi_conn srv = Some conn"
    using False assms(3) by simp_all
  have eq: "x11_queue_present hm chain i None srv = x11_present_to_x11_dri3 hm c1 i 0 srv"
    using False assms(1,2) hw
    by (auto simp add: x11_queue_present_def no_damage Let_def c1_def x11_present_to_x11_def)
  have "0 \<le> status c1" "unat i < length (images c1)"
    using assms(1,2) by (simp_all add: c1_def)
  from present_submits [OF this(1) cn this(2), of hm 0]
  show ?thesis unfolding eq by blast
qed

text \<open>
  C10 (as amended). A present whose damage argument has zero rectangles or more than 64
  behaves exactly like a present without damage, whatever the chain and the server: same
  result, same chain, same server, so the limit adds no failure; the damage block itself
  selects the update area 0 (none, the full image) and sends nothing. On a chain that is
  not in an error state, when the call returns, the update area of the slot is 0 and no
  region request has been sent to the server; and the call does return when the slot
  index is in range and the chain either queues the image or presents through the
  hardware path with a connection entry. On a chain in an error state the call returns
  the stored error at its first guard and leaves the chain, the update area of the slot
  included, and the server as they were.
\<close>

theorem oversized_damage_ignored:
  assumes "rectangleCount d = 0 \<or> MAX_DAMAGE_RECTS < rectangleCount d"
  shows "x11_queue_present hm chain i (Some d) srv = x11_queue_present hm chain i None srv \<and>
         (\<forall>r chain' srv'.
            0 \<le> status chain \<and>
            x11_queue_present hm chain i (Some d) srv = Inr (r, chain', srv') \<longrightarrow>
            update_area (images chain' ! unat i) = 0 \<and>
            set_region_requests (requests srv') = set_region_requests (requests srv)) \<and>
         (status chain < 0 \<longrightarrow>
            x11_queue_present hm chain i (Some d) srv = Inr (status chain, chain, srv)) \<and>
         x11_queue_present_damage chain i (Some d) srv = Inr (0, srv) \<and>
         (0 \<le> status chain \<and> unat i < length (images chain) \<and>
          (has_present_queue chain \<or>
           \<not> (sw (wsi chain) \<and> \<not> chain_has_mit_shm chain) \<and> wsi_conn srv = Some conn) \<longrightarrow>
            (\<exists>r chain' srv'.
               x11_queue_present hm chain i (Some d) srv = Inr (r, chain', srv') \<and>
               update_area (images chain' ! unat i) = 0 \<and>
               set_region_requests (requests srv') = set_region_requests (requests srv)))"
proof -
  have eq: "x11_queue_present hm chain i (Some d) srv = x11_queue_present hm chain i None srv"
    by (simp add: x11_queue_present_def damage_ignored [OF assms] no_damage)
  have neg: "status chain < 0 \<longrightarrow>
            x11_queue_present hm chain i (Some d) srv = Inr (status chain, chain, srv)"
    by (simp add: x11_queue_present_def)
  have full: "\<forall>r chain' srv'.
            0 \<le> status chain \<and>
            x11_queue_present hm chain i (Some d) srv = Inr (r, chain', srv') \<longrightarrow>
            update_area (images chain' ! unat i) = 0 \<and>
            set_region_requests (requests srv') = set_region_requests (requests srv)"
    using eq queue_present_full_image [of hm chain i srv] by auto
  have ret: "0 \<le> status chain \<and> unat i < length (images chain) \<and>
          (has_present_queue chain \<or>
           \<not> (sw (wsi chain) \<and> \<not> chain_has_mit_shm chain) \<and> wsi_conn srv = Some conn) \<longrightarrow>
            (\<exists>r chain' srv'.
               x11_queue_present hm chain i (Some d) srv = Inr (r, chain', srv') \<and>
               update_area (images chain' ! unat i) = 0 \<and>
               set_region_requests (requests srv') = set_region_requests (requests srv))"
  proof
    assume a: "0 \<le> status chain \<and> unat i < length (images chain) \<and>
          (has_present_queue chain \<or>
           \<not> (sw (wsi chain) \<and> \<not> chain_has_mit_shm chain) \<and> wsi_conn srv = Some conn)"
    then have "0 \<le> status chain" "unat i < length (images chain)"
      "has_present_queue chain \<or>
           \<not> (sw (wsi chain) \<and> \<not> chain_has_mit_shm chain) \<and> wsi_conn srv = Some conn"
      by blast+
    from queue_present_returns [OF this, of hm] obtain r chain' srv' where
      "x11_queue_present hm chain i None srv = Inr (r, chain', srv')" by blast
    then have "x11_queue_present hm chain i (Some d) srv = Inr (r, chain', srv')"
      using eq by simp
    with full a show "\<exists>r chain' srv'.
               x11_queue_present hm chain i (Some d) srv = Inr (r, chain', srv') \<and>
               update_area (images chain' ! unat i) = 0 \<and>
               set_region_requests (requests srv') = set_region_requests (requests srv)"
      by blast
  qed
  show ?thesis using eq neg full ret damage_ignored [OF assms, of chain i srv] by blast
qed

lemma present_chain0:
  "x11_queue_present False chain0 0 None xserver0 =
     Inr (VK_SUCCESS,
          chain0\<lparr>send_sbc := 1, sent_image_count := 1,
                  images := [(image0 0)\<lparr>busy := True, present_queued := True, serial := 1\<rparr>,
                             image0 1]\<rparr>,
          xserver0\<lparr>requests := [XCB_PRESENT_PIXMAP 1 16 1 0 48 1 0]\<rparr>)"
  by (simp add: x11_queue_present_def x11_queue_present_damage_def x11_present_to_x11_def
      x11_present_to_x11_dri3_def chain0_def xserver0_def connection0_def image0_def
      device0_def xcb_send_def xcb_request_check_def x11_swapchain_result_def vk_result_defs
      XCB_PRESENT_OPTION_NONE_def XCB_PRESENT_OPTION_ASYNC_def Let_def)

theorem oversized_damage_ignored_witness:
  "MAX_DAMAGE_RECTS <
     rectangleCount \<lparr>rectangleCount = 65,
        pRectangles = Some (replicate 65 \<lparr>rect_offset = (0, 0),
                        rect_extent = \<lparr>width = 1, height = 1\<rparr>, rect_layer = 0\<rparr>)\<rparr> \<and>
   x11_queue_present False chain0 0
     (Some \<lparr>rectangleCount = 65,
        pRectangles = Some (replicate 65 \<lparr>rect_offset = (0, 0),
                        rect_extent = \<lparr>width = 1, height = 1\<rparr>, rect_layer = 0\<rparr>)\<rparr>) xserver0 =
     Inr (VK_SUCCESS,
          chain0\<lparr>send_sbc := 1, sent_image_count := 1,
                  images := [(image0 0)\<lparr>busy := True, present_queued := True, serial := 1\<rparr>,
                             image0 1]\<rparr>,
          xserver0\<lparr>requests := [XCB_PRESENT_PIXMAP 1 16 1 0 48 1 0]\<rparr>) \<and>
   update_area ([(image0 0)\<lparr>busy := True, present_queued := True, serial := 1\<rparr>, image0 1] ! 0) = 0 \<and>
   set_region_requests [XCB_PRESENT_PIXMAP 1 16 1 0 48 1 0] = [] \<and>
   x11_queue_present_damage chain0 0
     (Some \<lparr>rectangleCount = 65,
        pRectangles = Some (replicate 65 \<lparr>rect_offset = (0, 0),
                        rect_extent = \<lparr>width = 1, height = 1\<rparr>, rect_layer = 0\<rparr>)\<rparr>) xserver0 =
     Inr (0, xserver0)"
proof -
  let ?d = "\<lparr>rectangleCount = 65,
        pRectangles = Some (replicate 65 \<lparr>rect_offset = (0, 0),
                        rect_extent = \<lparr>width = 1, height = 1\<rparr>, rect_layer = 0\<rparr>)\<rparr>"
  have h: "rectangleCount ?d = 0 \<or> MAX_DAMAGE_RECTS < rectangleCount ?d"
    by (simp add: MAX_DAMAGE_RECTS_def)
  have st: "0 \<le> status chain0" by (simp add: chain0_def vk_result_defs)
  show ?thesis
    using oversized_damage_ignored [OF h, of False chain0 0 xserver0] present_chain0 st h
    by (simp add: xserver0_def image0_def)
qed

text \<open>C10 in its first wording (every such present sets the update area to none and
  reports no error) fails on a chain in an error state: a present with 65 rectangles on
  an out-of-date chain whose slot still has the update area 32 of an earlier present
  returns the error and leaves the area at 32.\<close>

theorem oversized_damage_on_failed_chain:
  "MAX_DAMAGE_RECTS <
     rectangleCount \<lparr>rectangleCount = 65,
        pRectangles = Some (replicate 65 \<lparr>rect_offset = (0, 0),
                        rect_extent = \<lparr>width = 1, height = 1\<rparr>, rect_layer = 0\<rparr>)\<rparr> \<and>
   x11_queue_present False
     (chain0\<lparr>status := VK_ERROR_OUT_OF_DATE_KHR,
             images := [(image0 0)\<lparr>update_area := 32\<rparr>, image0 1]\<rparr>) 0
     (Some \<lparr>rectangleCount = 65,
        pRectangles = Some (replicate 65 \<lparr>rect_offset = (0, 0),
                        rect_extent = \<lparr>width = 1, height = 1\<rparr>, rect_layer = 0\<rparr>)\<rparr>) xserver0 =
     Inr (VK_ERROR_OUT_OF_DATE_KHR,
          chain0\<lparr>status := VK_ERROR_OUT_OF_DATE_KHR,
                  images := [(image0 0)\<lparr>update_area := 32\<rparr>, image0 1]\<rparr>,
          xserver0) \<and>
   VK_ERROR_OUT_OF_DATE_KHR < 0 \<and>
   update_area (images (chain0\<lparr>status := VK_ERROR_OUT_OF_DATE_KHR,
                  images := [(image0 0)\<lparr>update_area := 32\<rparr>, image0 1]\<rparr>) ! unat (0 :: 32 word)) = 32"
  by (simp add: x11_queue_present_def MAX_DAMAGE_RECTS_def vk_result_defs)

text \<open>For contrast, a damage list within the limit does set the region and selects it as
  the update area of the slot.\<close>

lemma damage_within_limit_sets_region:
  "x11_queue_present False chain0 0
     (Some \<lparr>rectangleCount = 1,
        pRectangles = Some [\<lparr>rect_offset = (8, 16),
                        rect_extent = \<lparr>width = 32, height = 64\<rparr>, rect_layer = 0\<rparr>]\<rparr>) xserver0 =
     Inr (VK_SUCCESS,
          chain0\<lparr>send_sbc := 1, sent_image_count := 1,
                  images := [(image0 0)\<lparr>update_area := 32, busy := True, present_queued := True,
                                        serial := 1\<rparr>,
                             image0 1]\<rparr>,
          xserver0\<lparr>requests := [XCB_XFIXES_SET_REGION 32 [(8, 16, 32, 64)],
                                 XCB_PRESENT_PIXMAP 1 16 1 32 48 1 0]\<rparr>)"
  by (simp add: x11_queue_present_def x11_queue_present_damage_def x11_present_to_x11_def
      x11_present_to_x11_dri3_def chain0_def xserver0_def connection0_def image0_def
      device0_def xcb_send_def xcb_request_check_def x11_swapchain_result_def vk_result_defs
      XCB_PRESENT_OPTION_NONE_def XCB_PRESENT_OPTION_ASYNC_def Let_def MAX_DAMAGE_RECTS_def
      xcb_rectangle_of_def)

subsection \<open>Present events\<close>












end
